theory Spec2Isabelle
  imports Complex_Main "HOL-Library.Word"
begin

section \<open>Data model\<close>

text \<open>
  The development embeds the consensus core of \<^verbatim>\<open>CoCoChainApp\<close> and the handover and
  transaction-id logic of \<^verbatim>\<open>VehicleApp\<close>.

  Conventions of the embedding.
  \<^item> \<^verbatim>\<open>uint64_t\<close> is \<open>64 word\<close>: addition and multiplication wrap modulo \<open>2 ^ 64\<close>.
  \<^item> The \<^verbatim>\<open>int\<close> counters and identifiers of \<^verbatim>\<open>CoCoChainApp\<close> are unbounded integers:
    signed overflow is undefined in C++ and is not modelled. The one \<^verbatim>\<open>int\<close> product
    of the program, in \<^verbatim>\<open>VehicleApp::sendTransaction\<close>, is taken on \<open>32 word\<close>.
  \<^item> \<^verbatim>\<open>double\<close> is the type \<open>double\<close> below: the finite values, the two infinities and
    NaN, with every arithmetic result rounded to the nearest binary64 value.
  \<^item> Simulation time (\<^verbatim>\<open>simtime_t\<close>) is an integer count of microseconds, supplied to
    each operation as the argument \<open>now\<close> (the value of \<^verbatim>\<open>simTime()\<close>).
  \<^item> Every random draw is an argument of the operation that draws it.
  \<^item> Emitted statistics (\<^verbatim>\<open>emit(signal, x)\<close>) are appended to per-signal lists kept in
    the state. Broadcast packets and log lines are not part of the state.
\<close>

type_synonym uint64 = "64 word"

type_synonym simtime = int

subsection \<open>Double-precision numbers\<close>

text \<open>
  A \<open>double\<close> is a finite real, an infinity or NaN. The two zeros are one value
  \<open>Finite 0\<close>; where the sign of a zero decides a result (a division by it) the zero is
  taken as positive, which is the only zero the divisors of this program can be: they are
  counts, sizes and products of square roots.
\<close>

datatype double = Finite real | PlusInf | MinusInf | NaN

text \<open>Rounding a real to an integer, to nearest with ties to even.\<close>

definition round_half_even :: "real \<Rightarrow> int" where
  "round_half_even r =
     (let f = \<lfloor>r\<rfloor>; d = r - of_int f
      in if d < 1 / 2 then f else if 1 / 2 < d then f + 1 else if even f then f else f + 1)"

text \<open>
  The binary64 grid. A nonzero \<open>x\<close> with \<open>2 ^ e \<le> |x| < 2 ^ (e + 1)\<close> lies in the binade
  \<open>e\<close>, where neighbouring values are \<open>2 ^ (e - 52)\<close> apart; below \<open>2 ^ - 1022\<close> the
  spacing stays \<open>2 ^ - 1074\<close> (subnormal numbers). \<open>nearest x\<close> is the grid point closest
  to \<open>x\<close>, ties going to the even significand, and \<open>round_to_double\<close> replaces a result
  of magnitude \<open>2 ^ 1024\<close> or more by an infinity.
\<close>

definition binade :: "real \<Rightarrow> int" where
  "binade x = max \<lfloor>log 2 \<bar>x\<bar>\<rfloor> (- 1022)"

definition ulp :: "real \<Rightarrow> real" where
  "ulp x = 2 powi (binade x - 52)"

definition nearest :: "real \<Rightarrow> real" where
  "nearest x = of_int (round_half_even (x / ulp x)) * ulp x"

definition round_to_double :: "real \<Rightarrow> double" where
  "round_to_double x =
     (if x = 0 then Finite 0
      else if 2 ^ 1024 \<le> nearest x then PlusInf
      else if nearest x \<le> - (2 ^ 1024) then MinusInf
      else Finite (nearest x))"

text \<open>An infinity of the given sign.\<close>

definition signed_inf :: "bool \<Rightarrow> double" where
  "signed_inf negative = (if negative then MinusInf else PlusInf)"

text \<open>Addition, negation and subtraction.\<close>

fun dadd :: "double \<Rightarrow> double \<Rightarrow> double" where
  "dadd (Finite x) (Finite y) = round_to_double (x + y)"
| "dadd NaN y = NaN"
| "dadd x NaN = NaN"
| "dadd PlusInf MinusInf = NaN"
| "dadd MinusInf PlusInf = NaN"
| "dadd PlusInf y = PlusInf"
| "dadd x PlusInf = PlusInf"
| "dadd MinusInf y = MinusInf"
| "dadd x MinusInf = MinusInf"

fun dneg :: "double \<Rightarrow> double" where
  "dneg (Finite x) = Finite (- x)"
| "dneg PlusInf = MinusInf"
| "dneg MinusInf = PlusInf"
| "dneg NaN = NaN"

definition dsub :: "double \<Rightarrow> double \<Rightarrow> double" where
  "dsub x y = dadd x (dneg y)"

text \<open>Multiplication: an infinity times zero is NaN.\<close>

fun dmul :: "double \<Rightarrow> double \<Rightarrow> double" where
  "dmul (Finite x) (Finite y) = round_to_double (x * y)"
| "dmul NaN y = NaN"
| "dmul x NaN = NaN"
| "dmul PlusInf PlusInf = PlusInf"
| "dmul PlusInf MinusInf = MinusInf"
| "dmul MinusInf PlusInf = MinusInf"
| "dmul MinusInf MinusInf = PlusInf"
| "dmul PlusInf (Finite y) = (if y = 0 then NaN else signed_inf (y < 0))"
| "dmul MinusInf (Finite y) = (if y = 0 then NaN else signed_inf (0 < y))"
| "dmul (Finite x) PlusInf = (if x = 0 then NaN else signed_inf (x < 0))"
| "dmul (Finite x) MinusInf = (if x = 0 then NaN else signed_inf (0 < x))"

text \<open>
  Division as the hardware performs it: a zero divisor gives NaN for \<open>0 / 0\<close> and an
  infinity otherwise, and no trap.
\<close>

fun ddiv :: "double \<Rightarrow> double \<Rightarrow> double" where
  "ddiv (Finite x) (Finite y) =
     (if y = 0 then (if x = 0 then NaN else signed_inf (x < 0))
      else round_to_double (x / y))"
| "ddiv NaN y = NaN"
| "ddiv x NaN = NaN"
| "ddiv (Finite x) PlusInf = Finite 0"
| "ddiv (Finite x) MinusInf = Finite 0"
| "ddiv PlusInf (Finite y) = signed_inf (y < 0)"
| "ddiv MinusInf (Finite y) = signed_inf (0 \<le> y)"
| "ddiv x y = NaN"

fun dsqrt :: "double \<Rightarrow> double" where
  "dsqrt (Finite x) = (if x < 0 then NaN else round_to_double (sqrt x))"
| "dsqrt PlusInf = PlusInf"
| "dsqrt MinusInf = NaN"
| "dsqrt NaN = NaN"

text \<open>The comparison \<^verbatim>\<open>x < y\<close>: false as soon as an operand is NaN.\<close>

fun dless :: "double \<Rightarrow> double \<Rightarrow> bool" where
  "dless (Finite x) (Finite y) = (x < y)"
| "dless NaN y = False"
| "dless x NaN = False"
| "dless x MinusInf = False"
| "dless PlusInf y = False"
| "dless x PlusInf = True"
| "dless MinusInf y = True"

text \<open>
  The absolute value on \<^verbatim>\<open>double\<close>, the conversions \<^verbatim>\<open>static_cast<double>(n)\<close> and
  \<^verbatim>\<open>static_cast<int>(x)\<close>. The latter discards the fractional part (rounding towards
  zero); it is undefined in C++ for an infinity, NaN or a value outside the range of
  \<^verbatim>\<open>int\<close>, where the model returns the truncated value or \<open>- 2 ^ 31\<close>.
\<close>

fun dabs :: "double \<Rightarrow> double" where
  "dabs (Finite x) = Finite \<bar>x\<bar>"
| "dabs PlusInf = PlusInf"
| "dabs MinusInf = PlusInf"
| "dabs NaN = NaN"

definition int_to_double :: "int \<Rightarrow> double" where
  "int_to_double n = round_to_double (of_int n)"

fun static_cast_int :: "double \<Rightarrow> int" where
  "static_cast_int (Finite x) = (if 0 \<le> x then \<lfloor>x\<rfloor> else \<lceil>x\<rceil>)"
| "static_cast_int PlusInf = - 2147483648"
| "static_cast_int MinusInf = - 2147483648"
| "static_cast_int NaN = - 2147483648"

text \<open>
  The outcome of a division in the source, together with whether its divisor was zero:
  \<open>DivByZero\<close> marks a division carried out with a zero divisor. Either way the value is
  the one the hardware leaves in the variable.
\<close>

datatype quotient = Quot double | DivByZero double

definition fdiv :: "double \<Rightarrow> double \<Rightarrow> quotient" where
  "fdiv x y = (if y = Finite 0 then DivByZero (ddiv x y) else Quot (ddiv x y))"

fun zero_divisor :: "quotient \<Rightarrow> bool" where
  "zero_divisor (Quot r) = False"
| "zero_divisor (DivByZero r) = True"

fun quotient_double :: "quotient \<Rightarrow> double" where
  "quotient_double (Quot r) = r"
| "quotient_double (DivByZero r) = r"

text \<open>
  Two properties of a \<open>double\<close> used to follow the squared norms: a value that is zero,
  not finite, or at least the smallest subnormal in magnitude; and a value that is at
  least \<open>2 ^ - 537\<close>, or \<open>+\<infinity>\<close>, or NaN.
\<close>

definition tiny_free :: "double \<Rightarrow> bool" where
  "tiny_free d = (case d of Finite r \<Rightarrow> r = 0 \<or> 2 powi (- 1074) \<le> \<bar>r\<bar> | _ \<Rightarrow> True)"

definition sizeable :: "double \<Rightarrow> bool" where
  "sizeable d = (case d of Finite s \<Rightarrow> 2 powi (- 537) \<le> s | PlusInf \<Rightarrow> True
                 | MinusInf \<Rightarrow> False | NaN \<Rightarrow> True)"

subsection \<open>Structures of \<^verbatim>\<open>CoCoChainApp.h\<close>\<close>

record ConceptVector =
  data :: "double list"
  cv_timestamp :: uint64
  nodeId :: int
  isCorrupted :: bool
  isTopK :: bool

record Transaction =
  tx_id :: uint64
  conceptVector :: ConceptVector
  semanticDigest :: string
  tx_timestamp :: uint64
  originator :: int
  verified :: bool

datatype msg_kind = PROPOSE | VOTE | COMMIT

record ConsensusMessage =
  msg_type :: msg_kind
  transactionId :: uint64
  senderId :: int
  vote :: bool
  msg_semanticDigest :: string
  msg_timestamp :: uint64

subsection \<open>State of a vehicle (\<^verbatim>\<open>VehicleApp.h\<close>)\<close>

record VehicleApp =
  vehicleId :: int
  v_transactionCounter :: uint64
  currentRSU :: int
  targetRSU :: int
  rsuContactTimes :: "int \<rightharpoonup> simtime"
  inHandover :: bool
  v_pendingTransactions :: "uint64 \<rightharpoonup> simtime"
  handoverSignal :: "double list"

section \<open>Handover on the vehicle\<close>

text \<open>
  \<^verbatim>\<open>VehicleApp::initiateHandover\<close>: ignored while a handover is in flight; otherwise the
  target is recorded and the handover signal is emitted.
\<close>

definition initiateHandover :: "int \<Rightarrow> VehicleApp \<Rightarrow> VehicleApp" where
  "initiateHandover newRSU v =
     (if inHandover v then v
      else v\<lparr>inHandover := True, targetRSU := newRSU,
              handoverSignal := handoverSignal v @ [Finite 1]\<rparr>)"

text \<open>
  \<^verbatim>\<open>VehicleApp::completeHandover\<close>. The guard
  \<^verbatim>\<open>if (!inHandover || rsuId != targetRSU) return;\<close> is evaluated left to right.
\<close>

definition completeHandover :: "simtime \<Rightarrow> int \<Rightarrow> bool \<Rightarrow> VehicleApp \<Rightarrow> VehicleApp" where
  "completeHandover now rsuId success v =
     (if \<not> inHandover v then v
      else if rsuId \<noteq> targetRSU v then v
      else
        let v1 = (if success
                  then v\<lparr>currentRSU := targetRSU v,
                          rsuContactTimes := (rsuContactTimes v)(targetRSU v \<mapsto> now)\<rparr>
                  else v)
        in v1\<lparr>inHandover := False, targetRSU := - 1\<rparr>)"

text \<open>A vehicle on RSU 1 that has asked RSU 2 for a handover.\<close>

definition vehicle_mid_handover :: VehicleApp where
  "vehicle_mid_handover =
     initiateHandover 2
       \<lparr>vehicleId = 7, v_transactionCounter = 0, currentRSU = 1, targetRSU = - 1,
        rsuContactTimes = Map.empty, inHandover = False,
        v_pendingTransactions = Map.empty, handoverSignal = []\<rparr>"

section \<open>The platform library\<close>

text \<open>
  Three functions come from outside the repository and are arguments of the embedding,
  so that a theorem holds for every implementation of them:
  \<^item> \<open>fmt\<close>, the stream formatting of a \<^verbatim>\<open>double\<close> under
    \<^verbatim>\<open>std::fixed << std::setprecision(6)\<close>;
  \<^item> \<open>hasher\<close>, \<^verbatim>\<open>std::hash<std::string>\<close>, which the standard leaves to the
    implementation;
  \<^item> \<open>absf\<close>, the function that the unqualified call \<^verbatim>\<open>abs(val)\<close> in
    \<^verbatim>\<open>isTopKConcept\<close> resolves to: the \<^verbatim>\<open>double\<close> overload, or the C function on
    \<^verbatim>\<open>int\<close>, depending on the headers in scope.

  One concrete instance of each is defined to run examples: \<open>fixed6\<close> renders a finite
  value with six fractional digits, rounding to nearest with ties to even, \<open>fnv1a_64\<close> is
  the 64-bit FNV-1a hash, and \<open>dabs\<close> above and \<open>abs_of_int\<close> are the two candidates for
  \<open>absf\<close>.
\<close>

unbundle bit_operations_syntax

fun dec_nat :: "nat \<Rightarrow> string" where
  "dec_nat n = (if n < 10 then [''0123456789'' ! n]
                else dec_nat (n div 10) @ [''0123456789'' ! (n mod 10)])"

declare dec_nat.simps [simp del]

definition pad6 :: "nat \<Rightarrow> string" where
  "pad6 n = map (\<lambda>k. ''0123456789'' ! ((n div 10 ^ k) mod 10)) [5, 4, 3, 2, 1, 0]"

fun fixed6 :: "double \<Rightarrow> string" where
  "fixed6 (Finite x) =
     (let n = nat (round_half_even (\<bar>x\<bar> * 1000000))
      in (if x < 0 then ''-'' else []) @ dec_nat (n div 1000000) @ ''.'' @ pad6 (n mod 1000000))"
| "fixed6 PlusInf = ''inf''"
| "fixed6 MinusInf = ''-inf''"
| "fixed6 NaN = ''nan''"

definition fnv1a_64 :: "string \<Rightarrow> uint64" where
  "fnv1a_64 s = foldl (\<lambda>h c. (h XOR of_char c) * 1099511628211) 14695981039346656037 s"

definition abs_of_int :: "double \<Rightarrow> double" where
  "abs_of_int val = int_to_double \<bar>static_cast_int val\<bar>"

text \<open>\<^verbatim>\<open>result << std::hex << hash\<close>: lower-case hexadecimal without leading zeros.\<close>

fun hex_nat :: "nat \<Rightarrow> string" where
  "hex_nat n = (if n < 16 then [''0123456789abcdef'' ! n]
                else hex_nat (n div 16) @ [''0123456789abcdef'' ! (n mod 16)])"

declare hex_nat.simps [simp del]

section \<open>Semantic digest and integrity verification\<close>

text \<open>
  \<^verbatim>\<open>CoCoChainApp::computeSemanticDigest\<close>: every coordinate is written with the fixed
  format followed by \<^verbatim>\<open>";"\<close>, the text is hashed, and the hash is written in hexadecimal.
  Only \<open>cv.data\<close> is read.
\<close>

definition computeSemanticDigest ::
  "(double \<Rightarrow> string) \<Rightarrow> (string \<Rightarrow> uint64) \<Rightarrow> ConceptVector \<Rightarrow> string" where
  "computeSemanticDigest fmt hasher cv =
     hex_nat (unat (hasher (concat (map (\<lambda>val. fmt val @ '';'') (data cv)))))"

text \<open>
  \<^verbatim>\<open>CoCoChainApp::calculateCosineSimilarity\<close>. The loop runs over the indices of \<open>a\<close> and is
  entered only when both vectors have the same size; it accumulates the dot product and
  the two squared norms, each step rounded.
\<close>

fun cosine_loop ::
  "double list \<Rightarrow> double list \<Rightarrow> double \<times> double \<times> double \<Rightarrow> double \<times> double \<times> double" where
  "cosine_loop (x # xs) (y # ys) (dotProduct, normA, normB) =
     cosine_loop xs ys
       (dadd dotProduct (dmul x y), dadd normA (dmul x x), dadd normB (dmul y y))"
| "cosine_loop [] ys acc = acc"
| "cosine_loop xs [] acc = acc"

definition calculateCosineSimilarity :: "double list \<Rightarrow> double list \<Rightarrow> quotient" where
  "calculateCosineSimilarity a b =
     (if length a = length b
      then (case cosine_loop a b (Finite 0, Finite 0, Finite 0) of
              (dotProduct, normA, normB) \<Rightarrow>
                if normA = Finite 0 then Quot (Finite 0)
                else if normB = Finite 0 then Quot (Finite 0)
                else fdiv dotProduct (dmul (dsqrt normA) (dsqrt normB)))
      else Quot (Finite 0))"

text \<open>
  The squared norm and the dot product the loop computes, named on their own: running
  sums in index order, every product and every sum rounded.
\<close>

definition squared_norm :: "double list \<Rightarrow> double" where
  "squared_norm a = foldl (\<lambda>acc x. dadd acc (dmul x x)) (Finite 0) a"

definition dot_product :: "double list \<Rightarrow> double list \<Rightarrow> double" where
  "dot_product a b = foldl (\<lambda>acc (x, y). dadd acc (dmul x y)) (Finite 0) (zip a b)"

text \<open>
  \<^verbatim>\<open>CoCoChainApp::isTopKConcept\<close>: true as soon as \<^verbatim>\<open>abs(val) > 0.8\<close> for a coordinate,
  otherwise the flag of the vector. The literal \<^verbatim>\<open>0.8\<close> is the double nearest to it.
\<close>

definition isTopKConcept :: "(double \<Rightarrow> double) \<Rightarrow> ConceptVector \<Rightarrow> bool" where
  "isTopKConcept absf cv =
     (if list_ex (\<lambda>val. dless (round_to_double (8 / 10)) (absf val)) (data cv) then True
      else isTopK cv)"

text \<open>
  The mean and population variance computed inside \<^verbatim>\<open>verifySemanticIntegrity\<close>: a
  running sum divided by the size, twice. For an empty vector both divisions are
  \<open>0 / 0\<close> and give NaN.
\<close>

definition mean_of :: "double list \<Rightarrow> double" where
  "mean_of d = ddiv (foldl dadd (Finite 0) d) (int_to_double (int (length d)))"

definition variance_of :: "double list \<Rightarrow> double" where
  "variance_of d =
     ddiv (foldl (\<lambda>variance val.
                    dadd variance (dmul (dsub val (mean_of d)) (dsub val (mean_of d))))
             (Finite 0) d)
          (int_to_double (int (length d)))"

section \<open>State of a CoCoChain node\<close>

text \<open>
  The members of \<^verbatim>\<open>class CoCoChainApp\<close> that the consensus engine and the metrics read
  or write. \<open>getId\<close> is the module id returned by \<^verbatim>\<open>getId()\<close>. The last five fields are
  the samples emitted on each statistics signal, oldest first; a latency sample is
  stored together with the transaction id it was emitted for.
\<close>

record CoCoChainApp =
  getId :: int
  bftThreshold :: double
  semanticVerification :: bool
  maxTransactionAge :: simtime
  cosineSimilarityThreshold :: double
  enablePbftComparison :: bool
  pendingTransactions :: "uint64 \<rightharpoonup> Transaction"
  consensusVotes :: "uint64 \<rightharpoonup> ConsensusMessage list"
  confirmedTransactions :: "uint64 set"
  adversarialNodes :: "int set"
  transactionStartTimes :: "uint64 \<rightharpoonup> simtime"
  totalMessagesReceived :: int
  totalMalformedDetected :: int
  totalFalsePositives :: int
  totalValidTransactions :: int
  totalThroughput :: int
  lastThroughputUpdate :: simtime
  transactionCounter :: uint64
  endToEndLatencySignal :: "(uint64 \<times> simtime) list"
  consensusOverheadSignal :: "int list"
  malformedDetectedSignal :: "int list"
  falsePositiveRateSignal :: "quotient list"
  throughputSignal :: "int list"

text \<open>
  The constructor followed by \<^verbatim>\<open>initialize\<close>: the parameters are read from the
  configuration, the node is adversarial when its draw is below the corruption
  probability, and everything else is empty or zero.
\<close>

definition initialize ::
  "int \<Rightarrow> double \<Rightarrow> bool \<Rightarrow> simtime \<Rightarrow> double \<Rightarrow> bool \<Rightarrow> double \<Rightarrow> double \<Rightarrow> CoCoChainApp" where
  "initialize nid bft semver maxAge cosThr pbftCmp corruptionProbability corruptionDraw =
     \<lparr>getId = nid, bftThreshold = bft, semanticVerification = semver,
      maxTransactionAge = maxAge, cosineSimilarityThreshold = cosThr,
      enablePbftComparison = pbftCmp,
      pendingTransactions = Map.empty, consensusVotes = Map.empty,
      confirmedTransactions = {},
      adversarialNodes = (if dless corruptionDraw corruptionProbability then {nid} else {}),
      transactionStartTimes = Map.empty,
      totalMessagesReceived = 0, totalMalformedDetected = 0, totalFalsePositives = 0,
      totalValidTransactions = 0, totalThroughput = 0, lastThroughputUpdate = 0,
      transactionCounter = 0,
      endToEndLatencySignal = [], consensusOverheadSignal = [], malformedDetectedSignal = [],
      falsePositiveRateSignal = [], throughputSignal = []\<rparr>"

section \<open>Verification of a received transaction\<close>

text \<open>
  \<^verbatim>\<open>CoCoChainApp::generateConceptVector\<close>: ten draws from the concept distribution;
  \<open>draw i\<close> is the \<open>i\<close>-th of them.
\<close>

definition generateConceptVector ::
  "(nat \<Rightarrow> double) \<Rightarrow> simtime \<Rightarrow> CoCoChainApp \<Rightarrow> ConceptVector" where
  "generateConceptVector draw now s =
     \<lparr>data = map draw [0..<10], cv_timestamp = word_of_int now, nodeId = getId s,
      isCorrupted = False, isTopK = False\<rparr>"

text \<open>
  A comparison \<^verbatim>\<open>similarity < threshold\<close> on the result of the division in
  \<^verbatim>\<open>calculateCosineSimilarity\<close>.
\<close>

definition quotient_less :: "quotient \<Rightarrow> double \<Rightarrow> bool" where
  "quotient_less q t = dless (quotient_double q) t"

text \<open>
  \<^verbatim>\<open>CoCoChainApp::verifySemanticIntegrity\<close>. The first statement returns \<^verbatim>\<open>true\<close> when
  verification is switched off. \<open>refDraw\<close> supplies the draws of the reference vector
  generated for the top-k check.
\<close>

definition verifySemanticIntegrity ::
  "(double \<Rightarrow> string) \<Rightarrow> (string \<Rightarrow> uint64) \<Rightarrow> (double \<Rightarrow> double) \<Rightarrow> (nat \<Rightarrow> double) \<Rightarrow>
   simtime \<Rightarrow> CoCoChainApp \<Rightarrow> Transaction \<Rightarrow> bool" where
  "verifySemanticIntegrity fmt hasher absf refDraw now s tx =
     (if \<not> semanticVerification s then True
      else
        let computedDigest = computeSemanticDigest fmt hasher (conceptVector tx);
            isValid = (computedDigest = semanticDigest tx)
        in if isValid
           then
             let variance = variance_of (data (conceptVector tx));
                 isValid1 = (if dless (Finite 2) variance then False else isValid)
             in if isValid1 \<and> isTopKConcept absf (conceptVector tx)
                then
                  let refVector = generateConceptVector refDraw now s;
                      similarity = calculateCosineSimilarity (data (conceptVector tx)) (data refVector)
                  in if quotient_less similarity (cosineSimilarityThreshold s) then False
                     else isValid1
                else isValid1
           else isValid)"

text \<open>\<^verbatim>\<open>CoCoChainApp::processPbftConsensus\<close>; \<open>u\<close> is its uniform draw.\<close>

definition processPbftConsensus :: "double \<Rightarrow> Transaction \<Rightarrow> bool" where
  "processPbftConsensus u tx =
     (let isValid = \<not> isCorrupted (conceptVector tx)
      in if dless u (round_to_double (67 / 100)) then isValid else False)"

section \<open>Metrics\<close>

text \<open>
  \<^verbatim>\<open>CoCoChainApp::updateFalsePositiveRate\<close>. The guard tests
  \<^verbatim>\<open>totalValidTransactions + totalMalformedDetected\<close>; the divisor is
  \<^verbatim>\<open>totalValidTransactions + totalFalsePositives\<close>.
\<close>

definition updateFalsePositiveRate :: "bool \<Rightarrow> bool \<Rightarrow> CoCoChainApp \<Rightarrow> CoCoChainApp" where
  "updateFalsePositiveRate wasValid wasRejected s =
     (let s1 = (if wasValid \<and> wasRejected
                then s\<lparr>totalFalsePositives := totalFalsePositives s + 1\<rparr> else s)
      in if 0 < totalValidTransactions s1 + totalMalformedDetected s1
         then s1\<lparr>falsePositiveRateSignal := falsePositiveRateSignal s1 @
                    [fdiv (int_to_double (totalFalsePositives s1))
                          (int_to_double (totalValidTransactions s1 + totalFalsePositives s1))]\<rparr>
         else s1)"


text \<open>\<^verbatim>\<open>CoCoChainApp::updateThroughputMetrics\<close>; one second is \<open>1000000\<close> microseconds.\<close>

definition updateThroughputMetrics :: "simtime \<Rightarrow> CoCoChainApp \<Rightarrow> CoCoChainApp" where
  "updateThroughputMetrics now s =
     (if 1000000 \<le> now - lastThroughputUpdate s
      then s\<lparr>throughputSignal := throughputSignal s @ [totalThroughput s],
              totalThroughput := 0, lastThroughputUpdate := now\<rparr>
      else s)"

text \<open>
  \<^verbatim>\<open>CoCoChainApp::processCocoChainConsensus\<close>: the verdict and the updated metrics.
  \<open>refDraw1\<close> feeds the reference vector inside \<open>verifySemanticIntegrity\<close>, \<open>refDraw2\<close> the
  one generated here.
\<close>

definition processCocoChainConsensus ::
  "(double \<Rightarrow> string) \<Rightarrow> (string \<Rightarrow> uint64) \<Rightarrow> (double \<Rightarrow> double) \<Rightarrow> (nat \<Rightarrow> double) \<Rightarrow>
   (nat \<Rightarrow> double) \<Rightarrow> simtime \<Rightarrow> Transaction \<Rightarrow> CoCoChainApp \<Rightarrow> bool \<times> CoCoChainApp" where
  "processCocoChainConsensus fmt hasher absf refDraw1 refDraw2 now tx s =
     (if \<not> verifySemanticIntegrity fmt hasher absf refDraw1 now s tx then (False, s)
      else if isTopKConcept absf (conceptVector tx) \<and>
              quotient_less
                (calculateCosineSimilarity (data (conceptVector tx))
                   (data (generateConceptVector refDraw2 now s)))
                (cosineSimilarityThreshold s)
      then (if \<not> isCorrupted (conceptVector tx)
            then (False, updateFalsePositiveRate True True
                           (s\<lparr>totalFalsePositives := totalFalsePositives s + 1\<rparr>))
            else (False, s))
      else if isCorrupted (conceptVector tx)
      then (True, s\<lparr>totalMalformedDetected := totalMalformedDetected s + 1,
                     malformedDetectedSignal := malformedDetectedSignal s @ [1]\<rparr>)
      else (True, updateFalsePositiveRate True False
                    (s\<lparr>totalValidTransactions := totalValidTransactions s + 1\<rparr>)))"

section \<open>Transaction lifecycle and consensus engine\<close>

text \<open>
  The threshold computed in \<^verbatim>\<open>processConsensusMessage\<close>:
  \<^verbatim>\<open>int estimatedNetworkSize = 100;\<close>
  \<^verbatim>\<open>int requiredVotes = static_cast<int>(estimatedNetworkSize * bftThreshold);\<close>
  The product is a \<^verbatim>\<open>double\<close> multiplication, rounded before the conversion.
\<close>

definition requiredVotes :: "CoCoChainApp \<Rightarrow> int" where
  "requiredVotes s = static_cast_int (dmul (int_to_double 100) (bftThreshold s))"

text \<open>
  The threshold as the specification words it: the same product rounded up to an
  integer.
\<close>

definition requiredVotes_spec :: "CoCoChainApp \<Rightarrow> int" where
  "requiredVotes_spec s =
     (case dmul (int_to_double 100) (bftThreshold s) of
        Finite p \<Rightarrow> \<lceil>p\<rceil>
      | PlusInf \<Rightarrow> - 2147483648 | MinusInf \<Rightarrow> - 2147483648 | NaN \<Rightarrow> - 2147483648)"

text \<open>
  The vote list stored for a transaction; \<^verbatim>\<open>consensusVotes[txId]\<close> on a missing key
  creates an empty list.
\<close>

definition votes_of :: "CoCoChainApp \<Rightarrow> uint64 \<Rightarrow> ConsensusMessage list" where
  "votes_of s txId = (case consensusVotes s txId of None \<Rightarrow> [] | Some vs \<Rightarrow> vs)"

definition totalCount :: "CoCoChainApp \<Rightarrow> uint64 \<Rightarrow> int" where
  "totalCount s txId = int (length (votes_of s txId))"

definition acceptCount :: "CoCoChainApp \<Rightarrow> uint64 \<Rightarrow> int" where
  "acceptCount s txId = int (length (filter vote (votes_of s txId)))"

text \<open>\<^verbatim>\<open>CoCoChainApp::finalizeTransaction\<close>.\<close>

definition finalizeTransaction :: "simtime \<Rightarrow> uint64 \<Rightarrow> CoCoChainApp \<Rightarrow> CoCoChainApp" where
  "finalizeTransaction now txId s =
     (if txId \<in> confirmedTransactions s then s
      else
        let s1 = s\<lparr>confirmedTransactions := insert txId (confirmedTransactions s)\<rparr>;
            s2 = (case transactionStartTimes s1 txId of
                    None \<Rightarrow> s1
                  | Some started \<Rightarrow>
                      s1\<lparr>endToEndLatencySignal :=
                            endToEndLatencySignal s1 @ [(txId, now - started)],
                          transactionStartTimes := (transactionStartTimes s1)(txId := None)\<rparr>)
        in s2\<lparr>pendingTransactions := (pendingTransactions s2)(txId := None),
               consensusVotes := (consensusVotes s2)(txId := None)\<rparr>)"

text \<open>
  \<^verbatim>\<open>CoCoChainApp::processConsensusMessage\<close>: the vote is appended to the list of its
  transaction, the list is counted, and once it holds \<open>requiredVotes\<close> entries the
  transaction is finalized or erased.
\<close>

definition processConsensusMessage ::
  "simtime \<Rightarrow> ConsensusMessage \<Rightarrow> CoCoChainApp \<Rightarrow> CoCoChainApp" where
  "processConsensusMessage now msg s =
     (if msg_type msg \<noteq> VOTE then s
      else
        let s1 = s\<lparr>consensusVotes :=
                    (consensusVotes s)(transactionId msg \<mapsto> votes_of s (transactionId msg) @ [msg])\<rparr>;
            votes = votes_of s1 (transactionId msg);
            totalVotes = int (length votes);
            positiveVotes = int (length (filter vote votes))
        in if requiredVotes s1 \<le> totalVotes
           then (if requiredVotes s1 \<le> positiveVotes
                 then finalizeTransaction now (transactionId msg) s1
                 else s1\<lparr>pendingTransactions := (pendingTransactions s1)(transactionId msg := None),
                         consensusVotes := (consensusVotes s1)(transactionId msg := None)\<rparr>)
           else s1)"

text \<open>
  The transaction id allocated by \<^verbatim>\<open>CoCoChainApp::sendTransaction\<close>:
  \<^verbatim>\<open>tx.id = ++transactionCounter + (getId() * 1000000ULL); // Ensure unique IDs\<close>
  The arithmetic is on \<^verbatim>\<open>unsigned long long\<close>.
\<close>

definition sendTransaction_id :: "CoCoChainApp \<Rightarrow> uint64" where
  "sendTransaction_id s = (transactionCounter s + 1) + word_of_int (getId s) * 1000000"

text \<open>
  \<^verbatim>\<open>CoCoChainApp::sendTransaction\<close>. The concept vector and digest built in the call are
  local to it: the broadcast carries the id, the originator and the timestamp only.
\<close>

definition sendTransaction :: "simtime \<Rightarrow> CoCoChainApp \<Rightarrow> CoCoChainApp" where
  "sendTransaction now s =
     (let txId = sendTransaction_id s;
          s1 = s\<lparr>transactionCounter := transactionCounter s + 1\<rparr>;
          s2 = s1\<lparr>transactionStartTimes := (transactionStartTimes s1)(txId \<mapsto> now)\<rparr>;
          s3 = s2\<lparr>totalThroughput := totalThroughput s2 + 1\<rparr>
      in updateThroughputMetrics now s3)"

text \<open>
  \<^verbatim>\<open>CoCoChainApp::processReceivedTransaction\<close>. The PBFT comparison, when enabled, only
  writes its verdict to the log, and \<^verbatim>\<open>startConsensus\<close> broadcasts this node's vote; both
  leave the state as it is.
\<close>

definition processReceivedTransaction ::
  "(double \<Rightarrow> string) \<Rightarrow> (string \<Rightarrow> uint64) \<Rightarrow> (double \<Rightarrow> double) \<Rightarrow> (nat \<Rightarrow> double) \<Rightarrow>
   (nat \<Rightarrow> double) \<Rightarrow> simtime \<Rightarrow> Transaction \<Rightarrow> CoCoChainApp \<Rightarrow> CoCoChainApp" where
  "processReceivedTransaction fmt hasher absf refDraw1 refDraw2 now tx s =
     (if originator tx = getId s then s
      else if maxTransactionAge s < now - sint (tx_timestamp tx) then s
      else
        case processCocoChainConsensus fmt hasher absf refDraw1 refDraw2 now tx s of
          (cocoChainResult, s1) \<Rightarrow>
            if \<not> cocoChainResult then s1
            else s1\<lparr>pendingTransactions := (pendingTransactions s1)(tx_id tx \<mapsto> tx)\<rparr>)"

text \<open>
  What \<^verbatim>\<open>socketDataArrived\<close> parses from a packet: a transaction announcement (id,
  originator, timestamp), a consensus message, or anything else. The events of a node
  are the send timer and the arrival of a packet, each with the simulation time and the
  random draws it consumes.
\<close>

datatype packet = TRANSACTION uint64 int uint64 | CONSENSUS ConsensusMessage | OTHER

definition socketDataArrived ::
  "(double \<Rightarrow> string) \<Rightarrow> (string \<Rightarrow> uint64) \<Rightarrow> (double \<Rightarrow> double) \<Rightarrow> (nat \<Rightarrow> double) \<Rightarrow>
   (nat \<Rightarrow> double) \<Rightarrow> (nat \<Rightarrow> double) \<Rightarrow> simtime \<Rightarrow> packet \<Rightarrow> CoCoChainApp \<Rightarrow> CoCoChainApp" where
  "socketDataArrived fmt hasher absf txDraw refDraw1 refDraw2 now p s =
     (let s1 = s\<lparr>totalMessagesReceived := totalMessagesReceived s + 1,
                 consensusOverheadSignal := consensusOverheadSignal s @ [1]\<rparr>
      in case p of
           TRANSACTION i orig ts \<Rightarrow>
             let cv = generateConceptVector txDraw now s1;
                 tx = \<lparr>tx_id = i, conceptVector = cv,
                       semanticDigest = computeSemanticDigest fmt hasher cv,
                       tx_timestamp = ts, originator = orig, verified = False\<rparr>
             in processReceivedTransaction fmt hasher absf refDraw1 refDraw2 now tx s1
         | CONSENSUS msg \<Rightarrow> processConsensusMessage now msg s1
         | OTHER \<Rightarrow> s1)"

datatype event =
    SendTimer simtime
  | PacketArrived simtime packet "nat \<Rightarrow> double" "nat \<Rightarrow> double" "nat \<Rightarrow> double"

fun handle_event ::
  "(double \<Rightarrow> string) \<Rightarrow> (string \<Rightarrow> uint64) \<Rightarrow> (double \<Rightarrow> double) \<Rightarrow> CoCoChainApp \<Rightarrow> event \<Rightarrow>
   CoCoChainApp" where
  "handle_event fmt hasher absf s (SendTimer now) = sendTransaction now s"
| "handle_event fmt hasher absf s (PacketArrived now p txDraw refDraw1 refDraw2) =
     socketDataArrived fmt hasher absf txDraw refDraw1 refDraw2 now p s"

definition run ::
  "(double \<Rightarrow> string) \<Rightarrow> (string \<Rightarrow> uint64) \<Rightarrow> (double \<Rightarrow> double) \<Rightarrow> CoCoChainApp \<Rightarrow> event list \<Rightarrow>
   CoCoChainApp" where
  "run fmt hasher absf s evs = foldl (handle_event fmt hasher absf) s evs"

text \<open>
  The invariant behind the latency signal: every transaction id with a latency sample is
  confirmed, and no id has two samples.
\<close>

definition latency_once :: "CoCoChainApp \<Rightarrow> bool" where
  "latency_once s =
     (distinct (map fst (endToEndLatencySignal s)) \<and>
      fst ` set (endToEndLatencySignal s) \<subseteq> confirmedTransactions s)"



section \<open>Transactions of a vehicle\<close>

text \<open>
  \<^verbatim>\<open>VehicleApp::checkRSURange\<close> and \<^verbatim>\<open>VehicleApp::sendTransaction\<close>; \<open>nearestRSU\<close> is the
  value returned by \<^verbatim>\<open>findNearestRSU()\<close>, which draws a random position. The id is
  \<^verbatim>\<open>vehicleId * 1000000 + transactionCounter\<close>: the product is taken on 32-bit \<^verbatim>\<open>int\<close>
  and converted to \<^verbatim>\<open>uint64_t\<close> with its sign, the sum is on \<^verbatim>\<open>uint64_t\<close>. The product
  overflows from \<open>vehicleId = 2148\<close> on, which C++ leaves undefined; the model wraps it.
\<close>

definition checkRSURange :: "int \<Rightarrow> VehicleApp \<Rightarrow> VehicleApp" where
  "checkRSURange nearestRSU v =
     (if nearestRSU \<noteq> currentRSU v \<and> \<not> inHandover v then initiateHandover nearestRSU v else v)"

definition vehicle_txId :: "VehicleApp \<Rightarrow> uint64" where
  "vehicle_txId v =
     scast ((word_of_int (vehicleId v) :: 32 word) * 1000000) + (v_transactionCounter v + 1)"

definition vehicle_sendTransaction :: "simtime \<Rightarrow> int \<Rightarrow> VehicleApp \<Rightarrow> VehicleApp" where
  "vehicle_sendTransaction now nearestRSU v =
     (let v1 = checkRSURange nearestRSU v;
          txId = vehicle_txId v1;
          v2 = v1\<lparr>v_transactionCounter := v_transactionCounter v1 + 1\<rparr>
      in v2\<lparr>v_pendingTransactions := (v_pendingTransactions v2)(txId \<mapsto> now)\<rparr>)"

section \<open>Example inputs\<close>

text \<open>
  Concrete messages, nodes and vectors on which the operations are run below. A
  configured value such as \<open>0.67\<close> reaches the program as the double nearest to it.
\<close>

definition accept_vote :: "uint64 \<Rightarrow> nat \<Rightarrow> ConsensusMessage" where
  "accept_vote txId sender =
     \<lparr>msg_type = VOTE, transactionId = txId, senderId = int sender, vote = True,
      msg_semanticDigest = [], msg_timestamp = 0\<rparr>"

definition reject_vote :: "uint64 \<Rightarrow> nat \<Rightarrow> ConsensusMessage" where
  "reject_vote txId sender =
     \<lparr>msg_type = VOTE, transactionId = txId, senderId = int sender, vote = False,
      msg_semanticDigest = [], msg_timestamp = 0\<rparr>"

text \<open>
  A node with module id \<open>nid\<close> and BFT threshold \<open>bft\<close>, verification enabled, a
  maximum transaction age of five seconds and the similarity threshold \<open>0.2\<close>; it is not
  adversarial.
\<close>

definition fresh_node :: "int \<Rightarrow> double \<Rightarrow> CoCoChainApp" where
  "fresh_node nid bft =
     initialize nid bft True 5000000 (round_to_double (2 / 10)) False
       (round_to_double (1 / 10)) (Finite (1 / 2))"

text \<open>The default threshold \<open>0.67\<close>, and the threshold \<open>0.625\<close>, which is a double.\<close>

definition bft_0_67 :: double where
  "bft_0_67 = round_to_double (67 / 100)"

definition bft_0_625 :: double where
  "bft_0_625 = Finite (5 / 8)"

text \<open>The thresholds \<open>0.6\<close> and \<open>0.57\<close>.\<close>

definition bft_0_6 :: double where
  "bft_0_6 = round_to_double (6 / 10)"

definition bft_0_57 :: double where
  "bft_0_57 = round_to_double (57 / 100)"

text \<open>
  A node with threshold \<open>0.625\<close> that holds accepting votes for transaction \<open>7\<close> from the
  61 senders \<open>2, \<dots>, 62\<close>.
\<close>

definition node_61_accepts :: CoCoChainApp where
  "node_61_accepts =
     (fresh_node 1 bft_0_625)\<lparr>consensusVotes := [7 \<mapsto> map (accept_vote 7) [2..<63]]\<rparr>"

text \<open>
  A node with threshold \<open>0.67\<close> that has sent its first transaction (id \<open>1000001\<close>) at
  time \<open>0\<close> and holds rejecting votes for it from the 66 senders \<open>2, \<dots>, 67\<close>.
\<close>

definition node_66_rejects :: CoCoChainApp where
  "node_66_rejects =
     (sendTransaction 0 (fresh_node 1 bft_0_67))
       \<lparr>consensusVotes := [1000001 \<mapsto> map (reject_vote 1000001) [2..<68]]\<rparr>"

text \<open>A node with threshold \<open>0.67\<close> after the first vote on transaction \<open>7\<close>, cast by sender \<open>5\<close>.\<close>

definition node_one_vote :: CoCoChainApp where
  "node_one_vote = processConsensusMessage 0 (accept_vote 7 5) (fresh_node 1 bft_0_67)"

text \<open>The same node holding accepting votes from the 66 senders instead.\<close>

definition node_66_accepts :: CoCoChainApp where
  "node_66_accepts =
     (sendTransaction 0 (fresh_node 1 bft_0_67))
       \<lparr>consensusVotes := [1000001 \<mapsto> map (accept_vote 1000001) [2..<68]]\<rparr>"

text \<open>
  Node \<open>2\<close>, which has confirmed transaction \<open>1000001\<close> and has since collected 66 more
  accepting votes for it.
\<close>

definition node_confirmed_66 :: CoCoChainApp where
  "node_confirmed_66 =
     (fresh_node 2 bft_0_67)
       \<lparr>confirmedTransactions := {1000001},
        consensusVotes := [1000001 \<mapsto> map (accept_vote 1000001) [2..<68]]\<rparr>"

text \<open>A node whose verifier is switched off, and a transaction with a wrong digest.\<close>

definition node_unverified :: CoCoChainApp where
  "node_unverified = (fresh_node 1 bft_0_67)\<lparr>semanticVerification := False\<rparr>"

definition zero_draw :: "nat \<Rightarrow> double" where
  "zero_draw i = Finite 0"

definition tampered_tx :: Transaction where
  "tampered_tx =
     \<lparr>tx_id = 2000001,
      conceptVector = \<lparr>data = [Finite 1, Finite 2], cv_timestamp = 0, nodeId = 2,
                        isCorrupted = True, isTopK = False\<rparr>,
      semanticDigest = ''not-a-digest'', tx_timestamp = 0, originator = 2, verified = False\<rparr>"

text \<open>Node \<open>1\<close> after a million transactions, and vehicle \<open>0\<close> after a million.\<close>

definition node_after_million :: CoCoChainApp where
  "node_after_million = (fresh_node 1 bft_0_67)\<lparr>transactionCounter := 1000000\<rparr>"

definition vehicle_fresh :: "int \<Rightarrow> VehicleApp" where
  "vehicle_fresh vid =
     \<lparr>vehicleId = vid, v_transactionCounter = 0, currentRSU = 0, targetRSU = - 1,
      rsuContactTimes = Map.empty, inHandover = False,
      v_pendingTransactions = Map.empty, handoverSignal = []\<rparr>"

definition vehicle_after_million :: VehicleApp where
  "vehicle_after_million = (vehicle_fresh 0)\<lparr>v_transactionCounter := 1000000\<rparr>"

text \<open>
  Two concept vectors that differ in a coordinate below the rendered precision:
  \<open>0.5\<close> and \<open>0.5 + 2 ^ - 30\<close>.
\<close>

definition cv_a :: ConceptVector where
  "cv_a = \<lparr>data = [Finite (1 / 2), Finite (- 25 / 2)], cv_timestamp = 1, nodeId = 1,
           isCorrupted = False, isTopK = False\<rparr>"

definition cv_b :: ConceptVector where
  "cv_b = \<lparr>data = [Finite (536870913 / 1073741824), Finite (- 25 / 2)], cv_timestamp = 2,
           nodeId = 2, isCorrupted = True, isTopK = True\<rparr>"

text \<open>
  Two doubles whose squares leave the range of the finite values: \<open>2 ^ 600\<close>, whose
  square overflows, and \<open>2 ^ - 600\<close>, whose square underflows to zero.
\<close>

definition huge :: double where
  "huge = Finite (2 powi 600)"

definition minute :: double where
  "minute = Finite (2 powi (- 600))"


section \<open>Rounding to double\<close>

lemma round_half_even_ge: "of_int n \<le> q \<Longrightarrow> n \<le> round_half_even q"
  unfolding round_half_even_def Let_def by (auto simp: le_floor_iff) linarith+

lemma round_half_even_of_int [simp]: "round_half_even (of_int n) = n"
  by (simp add: round_half_even_def)

lemma round_half_even_small: "\<bar>q\<bar> < 1 / 2 \<Longrightarrow> round_half_even q = 0"
proof -
  assume q: "\<bar>q\<bar> < 1 / 2"
  show ?thesis
  proof (cases "0 \<le> q")
    case True
    then have "\<lfloor>q\<rfloor> = 0" using q by (simp add: floor_eq_iff)
    then show ?thesis using q True by (simp add: round_half_even_def)
  next
    case False
    then have "\<lfloor>q\<rfloor> = - 1" using q by (simp add: floor_eq_iff)
    then show ?thesis using q False by (simp add: round_half_even_def)
  qed
qed

lemma ulp_pos: "0 < ulp x"
  by (simp add: ulp_def zero_less_power_int)

lemma ulp_ge: "2 powi (- 1074) \<le> ulp x"
  unfolding ulp_def binade_def by (rule power_int_increasing) simp_all

lemma powr_powi2: "2 powr real_of_int k = (2::real) powi k"
  by (rule powr_real_of_int') simp_all

lemma floor_log2_iff:
  "0 < x \<Longrightarrow> (\<lfloor>log 2 x\<rfloor> = e) = (2 powi e \<le> x \<and> x < 2 powi (e + 1))"
  using floor_log_eq_powr_iff [of x 2 e] by (simp only: powr_powi2)

lemma floor_log2_bounds:
  assumes "0 < x"
  shows "2 powi \<lfloor>log 2 x\<rfloor> \<le> x" "x < 2 powi (\<lfloor>log 2 x\<rfloor> + 1)"
  using floor_log2_iff [OF assms, of "\<lfloor>log 2 x\<rfloor>"] by simp_all

lemma floor_log2_eq:
  assumes "2 powi e \<le> x" "x < 2 powi (e + 1)"
  shows "\<lfloor>log 2 x\<rfloor> = e"
proof -
  have "0 < x" using assms(1) zero_less_power_int [of "2::real" e] by linarith
  then show ?thesis using floor_log2_iff [of x e] assms by simp
qed

lemma floor_log2_ge:
  assumes "2 powi j \<le> x"
  shows "j \<le> \<lfloor>log 2 x\<rfloor>"
proof -
  have pos: "0 < x" using assms zero_less_power_int [of "2::real" j] by linarith
  have "2 powr real_of_int j \<le> x" using assms by (simp only: powr_powi2)
  then have "real_of_int j \<le> log 2 x" using pos by (simp add: le_log_iff)
  then show ?thesis by (simp add: le_floor_iff)
qed

lemma binade_normal:
  "2 powi e \<le> \<bar>x\<bar> \<Longrightarrow> \<bar>x\<bar> < 2 powi (e + 1) \<Longrightarrow> - 1022 \<le> e \<Longrightarrow> binade x = e"
  by (simp add: binade_def floor_log2_eq)

lemma binade_subnormal:
  assumes "x \<noteq> 0" "\<bar>x\<bar> < 2 powi (- 1022)"
  shows "binade x = - 1022"
proof -
  have "0 < \<bar>x\<bar>" using assms by simp
  from floor_log2_bounds(1) [OF this] assms(2)
  have "2 powi \<lfloor>log 2 \<bar>x\<bar>\<rfloor> < (2::real) powi (- 1022)" by linarith
  then have "\<lfloor>log 2 \<bar>x\<bar>\<rfloor> < - 1022"
    by (metis linorder_not_le one_le_numeral power_int_increasing)
  then show ?thesis by (simp add: binade_def)
qed

text \<open>Rounding does not fall below a power of two that the argument reaches.\<close>

lemma nearest_ge_pow2:
  assumes "2 powi j \<le> x" "- 1074 \<le> j"
  shows "2 powi j \<le> nearest x"
proof -
  have pos: "0 < x" using assms(1) zero_less_power_int [of "2::real" j] by linarith
  define L where "L = \<lfloor>log 2 x\<rfloor>"
  have Lx: "2 powi L \<le> x" using floor_log2_bounds(1) [OF pos] by (simp add: L_def)
  have jL: "j \<le> L" using floor_log2_ge [OF assms(1)] by (simp add: L_def)
  define g where "g = (if - 1022 \<le> L then L else j)"
  have e: "binade x = max L (- 1022)" using pos by (simp add: binade_def L_def)
  have gx: "2 powi g \<le> x" using Lx assms(1) by (simp add: g_def)
  have gj: "j \<le> g" using jL by (simp add: g_def)
  have ge: "0 \<le> g - (binade x - 52)" using assms(2) by (simp add: g_def e)
  define k where "k = nat (g - (binade x - 52))"
  have split: "(2::real) powi g = 2 ^ k * ulp x"
  proof -
    have "g = int k + (binade x - 52)" using ge by (simp add: k_def)
    then have "(2::real) powi g = 2 powi (int k) * 2 powi (binade x - 52)"
      by (metis power_int_add zero_neq_numeral)
    then show ?thesis by (simp add: ulp_def)
  qed
  have "of_int (2 ^ k) \<le> x / ulp x"
    using gx split ulp_pos [of x] by (simp add: pos_le_divide_eq)
  then have "2 ^ k \<le> round_half_even (x / ulp x)" by (rule round_half_even_ge)
  then have "real_of_int (2 ^ k) \<le> real_of_int (round_half_even (x / ulp x))"
    by linarith
  then have "2 ^ k * ulp x \<le> nearest x"
    using ulp_pos [of x] by (simp add: nearest_def)
  then have "2 powi g \<le> nearest x" using split by simp
  moreover have "(2::real) powi j \<le> 2 powi g" using gj by (simp add: power_int_increasing)
  ultimately show ?thesis by linarith
qed

lemma round_to_double_ge_pow2:
  assumes "2 powi j \<le> x" "- 1074 \<le> j"
  shows "round_to_double x = PlusInf \<or> (\<exists>r. round_to_double x = Finite r \<and> 2 powi j \<le> r)"
proof -
  have pos: "0 < x" using assms(1) zero_less_power_int [of "2::real" j] by linarith
  have n: "2 powi j \<le> nearest x" using nearest_ge_pow2 [OF assms] .
  then have "0 < nearest x" using zero_less_power_int [of "2::real" j] by linarith
  then show ?thesis using pos n by (simp add: round_to_double_def)
qed

text \<open>A finite result is zero or at least the smallest subnormal in magnitude.\<close>

lemma round_to_double_tiny:
  assumes "round_to_double x = Finite r"
  shows "r = 0 \<or> 2 powi (- 1074) \<le> \<bar>r\<bar>"
proof (cases "x = 0")
  case True
  then show ?thesis using assms by (simp add: round_to_double_def)
next
  case False
  then have r: "r = nearest x" using assms by (simp add: round_to_double_def split: if_splits)
  define n where "n = round_half_even (x / ulp x)"
  have rn: "r = of_int n * ulp x" by (simp add: r nearest_def n_def)
  show ?thesis
  proof (cases "n = 0")
    case True
    then show ?thesis by (simp add: rn)
  next
    case False
    then have "1 \<le> \<bar>real_of_int n\<bar>" by linarith
    then have "ulp x \<le> \<bar>real_of_int n\<bar> * ulp x"
      using ulp_pos [of x] by (simp add: mult_le_cancel_right1)
    then have "ulp x \<le> \<bar>r\<bar>" using ulp_pos [of x] by (simp add: rn abs_mult)
    then show ?thesis using ulp_ge [of x] by linarith
  qed
qed

text \<open>A product below half the smallest subnormal rounds to zero.\<close>

lemma round_to_double_underflow:
  assumes "\<bar>x\<bar> < 2 powi (- 1075)"
  shows "round_to_double x = Finite 0"
proof (cases "x = 0")
  case True
  then show ?thesis by (simp add: round_to_double_def)
next
  case False
  have "(2::real) powi (- 1075) \<le> 2 powi (- 1022)" by (rule power_int_increasing) simp_all
  then have "\<bar>x\<bar> < 2 powi (- 1022)" using assms by linarith
  with False have b: "binade x = - 1022" by (rule binade_subnormal)
  have u: "ulp x = 2 powi (- 1074)" by (simp add: ulp_def b)
  have half: "(2::real) powi (- 1075) = 2 powi (- 1074) / 2"
    by (simp add: power_int_minus_divide)
  have "\<bar>x / ulp x\<bar> < 1 / 2"
    using assms zero_less_power_int [of "2::real" "- 1074"]
    by (simp only: u half abs_divide) (simp add: pos_divide_less_eq)
  then have "nearest x = 0" by (simp add: nearest_def round_half_even_small)
  then show ?thesis using False by (simp add: round_to_double_def)
qed

text \<open>The values of the grid are left as they are.\<close>

lemma abs_of_int_less: "\<bar>n\<bar> < 2 ^ 53 \<Longrightarrow> \<bar>real_of_int n\<bar> < 2 ^ 53"
proof -
  assume "\<bar>n\<bar> < 2 ^ 53"
  then have "real_of_int \<bar>n\<bar> < real_of_int (2 ^ 53)" by (simp only: of_int_less_iff)
  then show ?thesis by simp
qed

lemma round_to_double_exact:
  assumes x: "x = of_int n * 2 powi k" and n: "\<bar>n\<bar> < 2 ^ 53" and k: "- 1074 \<le> k"
    and fin: "\<bar>x\<bar> < 2 ^ 1024"
  shows "round_to_double x = Finite x"
proof (cases "x = 0")
  case True
  then show ?thesis by (simp add: round_to_double_def)
next
  case False
  then have pos: "0 < \<bar>x\<bar>" by simp
  define L where "L = \<lfloor>log 2 \<bar>x\<bar>\<rfloor>"
  have "\<bar>x\<bar> = \<bar>real_of_int n\<bar> * 2 powi k"
    by (simp add: x abs_mult)
  also have "\<dots> < 2 ^ 53 * 2 powi k"
    using abs_of_int_less [OF n] zero_less_power_int [of "2::real" k]
    by (intro mult_strict_right_mono) simp_all
  also have "\<dots> = 2 powi (53 + k)"
    by (simp add: power_int_add)
  finally have up: "\<bar>x\<bar> < 2 powi (53 + k)" .
  have "2 powi L < (2::real) powi (53 + k)"
    using floor_log2_bounds(1) [OF pos] up by (simp add: L_def)
  then have "L < 53 + k"
    by (metis linorder_not_le one_le_numeral power_int_increasing)
  then have d0: "0 \<le> k - (binade x - 52)"
    using k by (simp add: binade_def L_def)
  define d where "d = nat (k - (binade x - 52))"
  have "k = int d + (binade x - 52)" using d0 by (simp add: d_def)
  then have "(2::real) powi k = 2 powi (int d) * 2 powi (binade x - 52)"
    by (metis power_int_add zero_neq_numeral)
  then have kk: "(2::real) powi k = 2 ^ d * ulp x" by (simp add: ulp_def)
  define u where "u = ulp x"
  have u: "0 < u" "(2::real) powi k = 2 ^ d * u"
    using ulp_pos [of x] kk by (simp_all add: u_def)
  have xu: "x = of_int (n * 2 ^ d) * u"
    by (simp add: x u(2))
  then have "x / u = of_int (n * 2 ^ d)"
    using u(1) by simp
  then have "of_int (round_half_even (x / u)) * u = x"
    using xu by (simp only: round_half_even_of_int)
  then have "nearest x = x" by (simp only: nearest_def u_def)
  then show ?thesis using False fin by (simp add: round_to_double_def abs_less_iff)
qed

lemma int_to_double_exact: "\<bar>n\<bar> < 2 ^ 53 \<Longrightarrow> int_to_double n = Finite (of_int n)"
proof -
  assume n: "\<bar>n\<bar> < 2 ^ 53"
  have "\<bar>real_of_int n\<bar> < 2 ^ 53" using n by (rule abs_of_int_less)
  also have "\<dots> < (2::real) ^ 1024" by simp
  finally have "\<bar>real_of_int n\<bar> < 2 ^ 1024" .
  then show ?thesis
    unfolding int_to_double_def
    using round_to_double_exact [of "of_int n" n 0] n by simp
qed


text \<open>How a concrete rounding is computed: fix the binade, round the scaled value.\<close>

lemma round_to_double_eval:
  assumes "x \<noteq> 0" "2 powi e \<le> \<bar>x\<bar>" "\<bar>x\<bar> < 2 powi (e + 1)" "- 1022 \<le> e"
    and "round_half_even (x / 2 powi (e - 52)) = n"
    and "of_int n * 2 powi (e - 52) = r" "\<bar>r\<bar> < 2 ^ 1024"
  shows "round_to_double x = Finite r"
proof -
  have "binade x = e" using assms(2-4) by (rule binade_normal)
  then have "nearest x = r" using assms(5,6) by (simp add: nearest_def ulp_def)
  then show ?thesis using assms(1,7) by (simp add: round_to_double_def abs_less_iff)
qed

lemma bft_0_67_double: "bft_0_67 = Finite (6034823500676465 / 9007199254740992)"
  unfolding bft_0_67_def
  by (rule round_to_double_eval [where e = "- 1" and n = 6034823500676465])
     (simp_all add: round_half_even_def)


lemma product_0_67: "dmul (int_to_double 100) bft_0_67 = Finite 67"
  unfolding bft_0_67_double int_to_double_exact [of 100, simplified] dmul.simps
  by (rule round_to_double_eval [where e = 6 and n = 4714705859903488])
     (simp_all add: round_half_even_def)

lemma product_0_625: "dmul (int_to_double 100) bft_0_625 = Finite (125 / 2)"
  unfolding bft_0_625_def int_to_double_exact [of 100, simplified] dmul.simps
  using round_to_double_exact [of "125 / 2" 125 "- 1"] by simp

text \<open>
  The double nearest to \<open>0.6\<close> gives the product \<open>60\<close>, although it lies below \<open>0.6\<close>;
  the double nearest to \<open>0.57\<close> gives a product below \<open>57\<close>.
\<close>

lemma bft_0_6_double: "bft_0_6 = Finite (5404319552844595 / 9007199254740992)"
  unfolding bft_0_6_def
  by (rule round_to_double_eval [where e = "- 1" and n = 5404319552844595])
     (simp_all add: round_half_even_def)

lemma bft_0_57_double: "bft_0_57 = Finite (5134103575202365 / 9007199254740992)"
  unfolding bft_0_57_def
  by (rule round_to_double_eval [where e = "- 1" and n = 5134103575202365])
     (simp_all add: round_half_even_def)

lemma product_0_6: "dmul (int_to_double 100) bft_0_6 = Finite 60"
  unfolding bft_0_6_double int_to_double_exact [of 100, simplified] dmul.simps
  by (rule round_to_double_eval [where e = 5 and n = 8444249301319680])
     (simp_all add: round_half_even_def)

lemma product_0_57:
  "dmul (int_to_double 100) bft_0_57 = Finite (8022036836253695 / 140737488355328)"
  unfolding bft_0_57_double int_to_double_exact [of 100, simplified] dmul.simps
  by (rule round_to_double_eval [where e = 5 and n = 8022036836253695])
     (simp_all add: round_half_even_def)

section \<open>Handover completion\<close>

text \<open>
  C7. \<^verbatim>\<open>completeHandover(rsuId, success)\<close> leaves the vehicle unchanged unless it is
  mid-handover and \<open>rsuId\<close> is the target of the handover in flight. For a matching
  response the context is cleared (\<open>inHandover\<close> false, \<open>targetRSU\<close> reset to \<open>-1\<close>); the
  current RSU becomes the target on success and keeps its value on failure.
\<close>

theorem completeHandover_guarded:
  "((\<not> inHandover v \<or> rsuId \<noteq> targetRSU v) \<longrightarrow>
      completeHandover now rsuId success v = v) \<and>
   ((inHandover v \<and> rsuId = targetRSU v) \<longrightarrow>
      inHandover (completeHandover now rsuId success v) = False \<and>
      targetRSU (completeHandover now rsuId success v) = - 1 \<and>
      currentRSU (completeHandover now rsuId True v) = targetRSU v \<and>
      currentRSU (completeHandover now rsuId False v) = currentRSU v)"
  by (simp add: completeHandover_def Let_def)

theorem completeHandover_guarded_witness:
  "inHandover vehicle_mid_handover \<and> targetRSU vehicle_mid_handover = 2 \<and>
   currentRSU vehicle_mid_handover = 1 \<and>
   completeHandover 5000 3 True vehicle_mid_handover = vehicle_mid_handover \<and>
   inHandover (completeHandover 5000 2 True vehicle_mid_handover) = False \<and>
   targetRSU (completeHandover 5000 2 True vehicle_mid_handover) = - 1 \<and>
   currentRSU (completeHandover 5000 2 True vehicle_mid_handover) = 2 \<and>
   currentRSU (completeHandover 5000 2 False vehicle_mid_handover) = 1"
proof -
  have h: "inHandover vehicle_mid_handover" "targetRSU vehicle_mid_handover = 2"
    "currentRSU vehicle_mid_handover = 1"
    by (simp_all add: vehicle_mid_handover_def initiateHandover_def)
  have stale: "completeHandover 5000 3 True vehicle_mid_handover = vehicle_mid_handover"
    using completeHandover_guarded [of vehicle_mid_handover 3 5000 True] h by simp
  have matching:
    "inHandover (completeHandover 5000 2 True vehicle_mid_handover) = False \<and>
     targetRSU (completeHandover 5000 2 True vehicle_mid_handover) = - 1 \<and>
     currentRSU (completeHandover 5000 2 True vehicle_mid_handover) = targetRSU vehicle_mid_handover \<and>
     currentRSU (completeHandover 5000 2 False vehicle_mid_handover) = currentRSU vehicle_mid_handover"
    using completeHandover_guarded [of vehicle_mid_handover 2 5000 True] h by simp
  from h stale matching show ?thesis by simp
qed

section \<open>Cosine similarity\<close>

lemma tiny_free_round: "tiny_free (round_to_double x)"
  using round_to_double_tiny [of x]
  by (cases "round_to_double x") (simp_all add: tiny_free_def)

lemma tiny_free_dadd: "tiny_free (dadd x y)"
  by (cases x; cases y) (simp_all add: tiny_free_round, simp_all add: tiny_free_def)

lemma cosine_loop_tiny_free:
  "tiny_free na \<Longrightarrow> tiny_free nb \<Longrightarrow> cosine_loop a b (d, na, nb) = (d', na', nb') \<Longrightarrow>
   tiny_free na' \<and> tiny_free nb'"
  by (induction a b "(d, na, nb)" arbitrary: d na nb rule: cosine_loop.induct)
     (auto simp add: tiny_free_dadd)

lemma sqrt_pow2: "sqrt (2 powi (- 1074)) = 2 powi (- 537)"
proof -
  have "(2::real) powi (- 1074) = (2 powi (- 537)) ^ 2"
    by (simp add: power2_eq_square flip: power_int_add)
  then show ?thesis
    using zero_less_power_int [of "2::real" "- 537"] by (simp only: real_sqrt_abs) simp
qed

text \<open>
  The square root of a nonzero sum is at least \<open>2 ^ - 537\<close>, and the product of two such
  values is at least the smallest subnormal: it cannot round to zero.
\<close>

lemma dsqrt_sizeable:
  assumes "tiny_free d" "d \<noteq> Finite 0"
  shows "sizeable (dsqrt d)"
proof (cases d)
  case (Finite r)
  show ?thesis
  proof (cases "r < 0")
    case True
    then show ?thesis by (simp add: Finite sizeable_def)
  next
    case False
    then have "2 powi (- 1074) \<le> r" using assms by (simp add: Finite tiny_free_def)
    then have "sqrt (2 powi (- 1074)) \<le> sqrt r" by simp
    then have "2 powi (- 537) \<le> sqrt r" by (simp only: sqrt_pow2)
    from round_to_double_ge_pow2 [OF this] show ?thesis
      using False by (auto simp add: Finite sizeable_def)
  qed
qed (simp_all add: sizeable_def)

lemma dmul_sizeable:
  assumes "sizeable x" "sizeable y"
  shows "dmul x y \<noteq> Finite 0"
proof (cases x; cases y)
  fix s t assume xy: "x = Finite s" "y = Finite t"
  then have s: "2 powi (- 537) \<le> s" and t: "2 powi (- 537) \<le> t"
    using assms by (simp_all add: sizeable_def)
  have p: "(0::real) < 2 powi (- 537)" by (simp add: zero_less_power_int)
  have "2 powi (- 537) * 2 powi (- 537) \<le> s * t"
    using s t p by (intro mult_mono) simp_all
  moreover have "(2::real) powi (- 537) * 2 powi (- 537) = 2 powi (- 1074)"
    by (simp flip: power_int_add)
  ultimately have "2 powi (- 1074) \<le> s * t" by simp
  from round_to_double_ge_pow2 [OF this] have
    "round_to_double (s * t) = PlusInf \<or>
     (\<exists>r. round_to_double (s * t) = Finite r \<and> 2 powi (- 1074) \<le> r)"
    by simp
  moreover have "(0::real) < 2 powi (- 1074)" by (simp add: zero_less_power_int)
  ultimately show ?thesis by (auto simp add: xy)
next
  fix s assume "x = Finite s" "y = PlusInf"
  then show ?thesis using assms zero_less_power_int [of "2::real" "- 537"]
    by (auto simp add: sizeable_def signed_inf_def)
next
  fix t assume "x = PlusInf" "y = Finite t"
  then show ?thesis using assms zero_less_power_int [of "2::real" "- 537"]
    by (auto simp add: sizeable_def signed_inf_def)
qed (use assms in \<open>simp_all add: sizeable_def\<close>)

lemma cosine_loop_sums:
  "length a = length b \<Longrightarrow>
   cosine_loop a b (d, na, nb) =
     (foldl (\<lambda>acc (x, y). dadd acc (dmul x y)) d (zip a b),
      foldl (\<lambda>acc x. dadd acc (dmul x x)) na a,
      foldl (\<lambda>acc x. dadd acc (dmul x x)) nb b)"
  by (induction a b arbitrary: d na nb rule: list_induct2) simp_all

text \<open>
  C10. \<^verbatim>\<open>calculateCosineSimilarity\<close> never divides by zero, for any two vectors of
  doubles, infinities and NaN included. When the sizes differ or one of the computed
  squared norms is zero (also by underflow) the result is exactly \<open>0.0\<close>; otherwise the
  divisor \<open>sqrt(normA) * sqrt(normB)\<close>, computed in double precision, is not zero and the
  result is the dot product divided by it.
\<close>

theorem calculateCosineSimilarity_guarded:
  "\<not> zero_divisor (calculateCosineSimilarity a b) \<and>
   (length a \<noteq> length b \<or> squared_norm a = Finite 0 \<or> squared_norm b = Finite 0 \<longrightarrow>
      calculateCosineSimilarity a b = Quot (Finite 0)) \<and>
   (length a = length b \<and> squared_norm a \<noteq> Finite 0 \<and> squared_norm b \<noteq> Finite 0 \<longrightarrow>
      dmul (dsqrt (squared_norm a)) (dsqrt (squared_norm b)) \<noteq> Finite 0 \<and>
      calculateCosineSimilarity a b =
        Quot (ddiv (dot_product a b) (dmul (dsqrt (squared_norm a)) (dsqrt (squared_norm b)))))"
proof (cases "length a = length b")
  case False
  then show ?thesis by (simp add: calculateCosineSimilarity_def)
next
  case True
  have loop: "cosine_loop a b (Finite 0, Finite 0, Finite 0) =
      (dot_product a b, squared_norm a, squared_norm b)"
    using cosine_loop_sums [OF True, of "Finite 0" "Finite 0" "Finite 0"]
    by (simp add: dot_product_def squared_norm_def)
  have zero: "tiny_free (Finite 0)" by (simp add: tiny_free_def)
  from cosine_loop_tiny_free [OF zero zero loop]
  have tf: "tiny_free (squared_norm a)" "tiny_free (squared_norm b)" by simp_all
  have divisor: "dmul (dsqrt (squared_norm a)) (dsqrt (squared_norm b)) \<noteq> Finite 0"
    if "squared_norm a \<noteq> Finite 0" "squared_norm b \<noteq> Finite 0"
    using that tf by (intro dmul_sizeable dsqrt_sizeable)
  show ?thesis
    using True divisor by (auto simp add: calculateCosineSimilarity_def loop fdiv_def)
qed

lemma round_to_double_overflow:
  assumes "2 powi 1024 \<le> x"
  shows "round_to_double x = PlusInf"
proof -
  have "2 powi 1024 \<le> nearest x" by (rule nearest_ge_pow2 [OF assms]) simp
  then have "2 ^ 1024 \<le> nearest x" by simp
  moreover have "x \<noteq> 0" using assms zero_less_power_int [of "2::real" 1024] by linarith
  ultimately show ?thesis by (simp add: round_to_double_def)
qed

lemma squared_norm_3_4:
  "squared_norm [Finite 3, Finite 4] = Finite 25"
  "squared_norm [Finite 4, Finite 3] = Finite 25"
  using round_to_double_exact [of 9 9 0] round_to_double_exact [of 16 16 0]
    round_to_double_exact [of 25 25 0]
  by (simp_all add: squared_norm_def)

lemma squared_norm_underflow: "squared_norm [minute] = Finite 0"
proof -
  have "(2::real) powi (- 600) * 2 powi (- 600) = 2 powi (- 1200)"
    by (simp flip: power_int_add)
  moreover have "\<bar>(2::real) powi (- 1200)\<bar> < 2 powi (- 1075)"
    by (simp add: power_int_minus_divide)
  ultimately have "dmul minute minute = Finite 0"
    unfolding minute_def by (simp only: dmul.simps round_to_double_underflow)
  then show ?thesis
    by (simp add: squared_norm_def round_to_double_def)
qed

lemma squared_norm_overflow:
  "squared_norm [huge] = PlusInf"
  "dot_product [huge] [huge] = PlusInf"
proof -
  have "(2::real) powi 600 * 2 powi 600 = 2 powi 1200"
    by (simp flip: power_int_add)
  moreover have "(2::real) powi 1024 \<le> 2 powi 1200"
    by (rule power_int_increasing) simp_all
  ultimately have "dmul huge huge = PlusInf"
    unfolding huge_def by (simp only: dmul.simps round_to_double_overflow)
  then show "squared_norm [huge] = PlusInf" "dot_product [huge] [huge] = PlusInf"
    by (simp_all add: squared_norm_def dot_product_def)
qed

theorem calculateCosineSimilarity_guarded_witness:
  "length [Finite 3, Finite 4] = length [Finite 4, Finite 3] \<and>
   squared_norm [Finite 3, Finite 4] \<noteq> Finite 0 \<and>
   squared_norm [Finite 4, Finite 3] \<noteq> Finite 0 \<and>
   dmul (dsqrt (squared_norm [Finite 3, Finite 4])) (dsqrt (squared_norm [Finite 4, Finite 3]))
     \<noteq> Finite 0 \<and>
   \<not> zero_divisor (calculateCosineSimilarity [Finite 3, Finite 4] [Finite 4, Finite 3]) \<and>
   length [Finite 1] \<noteq> length [Finite 1, Finite 2] \<and>
   calculateCosineSimilarity [Finite 1] [Finite 1, Finite 2] = Quot (Finite 0) \<and>
   squared_norm [minute] = Finite 0 \<and>
   calculateCosineSimilarity [minute] [minute] = Quot (Finite 0) \<and>
   squared_norm [huge] = PlusInf \<and>
   calculateCosineSimilarity [huge] [huge] = Quot NaN"
proof -
  have h1: "length [Finite 3, Finite 4] = length [Finite 4, Finite 3] \<and>
            squared_norm [Finite 3, Finite 4] \<noteq> Finite 0 \<and>
            squared_norm [Finite 4, Finite 3] \<noteq> Finite 0"
    by (simp add: squared_norm_3_4)
  have h2: "length [Finite 1] \<noteq> length [Finite 1, Finite 2]" by simp
  have h3: "squared_norm [minute] = Finite 0"
    by (rule squared_norm_underflow)
  have h4: "length [huge] = length [huge] \<and> squared_norm [huge] \<noteq> Finite 0"
    by (simp add: squared_norm_overflow)
  from h1 calculateCosineSimilarity_guarded [of "[Finite 3, Finite 4]" "[Finite 4, Finite 3]"]
  have c1: "dmul (dsqrt (squared_norm [Finite 3, Finite 4]))
                 (dsqrt (squared_norm [Finite 4, Finite 3])) \<noteq> Finite 0 \<and>
            \<not> zero_divisor (calculateCosineSimilarity [Finite 3, Finite 4] [Finite 4, Finite 3])"
    by blast
  from h2 calculateCosineSimilarity_guarded [of "[Finite 1]" "[Finite 1, Finite 2]"]
  have c2: "calculateCosineSimilarity [Finite 1] [Finite 1, Finite 2] = Quot (Finite 0)"
    by blast
  from h3 calculateCosineSimilarity_guarded [of "[minute]" "[minute]"]
  have c3: "calculateCosineSimilarity [minute] [minute] = Quot (Finite 0)"
    by blast
  from h4 calculateCosineSimilarity_guarded [of "[huge]" "[huge]"]
  have "calculateCosineSimilarity [huge] [huge] =
      Quot (ddiv (dot_product [huge] [huge])
              (dmul (dsqrt (squared_norm [huge])) (dsqrt (squared_norm [huge]))))"
    by blast
  then have c4: "calculateCosineSimilarity [huge] [huge] = Quot NaN"
    by (simp add: squared_norm_overflow)
  from h1 h2 h3 squared_norm_overflow(1) c1 c2 c3 c4 show ?thesis by blast
qed

section \<open>Determinism of the digest\<close>

lemma digest_text_map:
  "concat (map (\<lambda>val. fmt val @ sep) xs) = concat (map (\<lambda>s. s @ sep) (map fmt xs))"
  by (simp add: comp_def)

text \<open>
  C9. The digest is a function of the rendered coordinate sequence alone: two concept
  vectors whose coordinates render to the same texts have the same digest, whatever
  their other fields, for every formatting function and every hash function.
\<close>

theorem computeSemanticDigest_deterministic:
  "map fmt (data a) = map fmt (data b) \<Longrightarrow>
   computeSemanticDigest fmt hasher a = computeSemanticDigest fmt hasher b"
  unfolding computeSemanticDigest_def
  by (simp only: digest_text_map [of fmt])

theorem computeSemanticDigest_deterministic_witness:
  "map fixed6 (data cv_a) = map fixed6 (data cv_b) \<and> data cv_a \<noteq> data cv_b \<and>
   computeSemanticDigest fixed6 fnv1a_64 cv_a = computeSemanticDigest fixed6 fnv1a_64 cv_b"
proof -
  have h: "map fixed6 (data cv_a) = map fixed6 (data cv_b)"
    by (simp add: cv_a_def cv_b_def round_half_even_def pad6_def dec_nat.simps)
  have d: "data cv_a \<noteq> data cv_b"
    by (simp add: cv_a_def cv_b_def)
  from computeSemanticDigest_deterministic [OF h, of fnv1a_64] h d show ?thesis by blast
qed

section \<open>Quorum rule\<close>

lemma requiredVotes_truncates:
  "dmul (Finite 100) (bftThreshold s) = Finite p \<Longrightarrow>
   requiredVotes s = (if 0 \<le> p then \<lfloor>p\<rfloor> else \<lceil>p\<rceil>)"
  by (simp add: requiredVotes_def int_to_double_exact)

lemma acceptCount_le_totalCount: "acceptCount s k \<le> totalCount s k"
  by (simp add: acceptCount_def totalCount_def)

lemma votes_of_stored:
  "votes_of (s\<lparr>consensusVotes := (consensusVotes s)(k \<mapsto> vs)\<rparr>) k = vs"
  by (simp add: votes_of_def)

lemma requiredVotes_stored:
  "requiredVotes (s\<lparr>consensusVotes := m\<rparr>) = requiredVotes s"
  by (simp add: requiredVotes_def)

lemma finalizeTransaction_confirms:
  "confirmedTransactions (finalizeTransaction now txId s) = insert txId (confirmedTransactions s)"
  by (auto simp add: finalizeTransaction_def Let_def split: option.splits)

lemma finalizeTransaction_erases:
  "txId \<notin> confirmedTransactions s \<Longrightarrow>
   pendingTransactions (finalizeTransaction now txId s) txId = None \<and>
   consensusVotes (finalizeTransaction now txId s) txId = None \<and>
   transactionStartTimes (finalizeTransaction now txId s) txId = None"
  by (simp add: finalizeTransaction_def Let_def split: option.splits)

lemma finalizeTransaction_confirmed:
  "txId \<in> confirmedTransactions s \<Longrightarrow> finalizeTransaction now txId s = s"
  by (simp add: finalizeTransaction_def)

lemma processConsensusMessage_cases:
  "processConsensusMessage now msg s =
     (if msg_type msg \<noteq> VOTE then s
      else if totalCount s (transactionId msg) + 1 < requiredVotes s
      then s\<lparr>consensusVotes :=
               (consensusVotes s)(transactionId msg \<mapsto> votes_of s (transactionId msg) @ [msg])\<rparr>
      else if requiredVotes s \<le> acceptCount s (transactionId msg) + (if vote msg then 1 else 0)
      then finalizeTransaction now (transactionId msg)
             (s\<lparr>consensusVotes :=
                 (consensusVotes s)(transactionId msg \<mapsto> votes_of s (transactionId msg) @ [msg])\<rparr>)
      else s\<lparr>pendingTransactions := (pendingTransactions s)(transactionId msg := None),
              consensusVotes := (consensusVotes s)(transactionId msg := None)\<rparr>)"
  by (simp add: processConsensusMessage_def Let_def votes_of_stored requiredVotes_stored
      totalCount_def acceptCount_def)

text \<open>
  C1. The threshold is the double product \<open>100 * bftThreshold\<close>, rounded as a double,
  with its fractional part discarded: for a finite product \<open>p\<close> that is not negative, the
  largest integer not above \<open>p\<close>. A message that is not a vote changes nothing. For a vote on a transaction
  that is not yet confirmed, the transaction is confirmed by the call exactly when the
  stored votes, the new one included, number at least \<open>requiredVotes\<close> and so do the
  accepting ones. When the total reaches \<open>requiredVotes\<close> and the accepting votes fall
  short, the transaction leaves the pending map and the vote map and is not confirmed.
\<close>

theorem processConsensusMessage_quorum:
  "(let txId = transactionId msg;
        total = totalCount s txId + 1;
        accept = acceptCount s txId + (if vote msg then 1 else 0);
        s' = processConsensusMessage now msg s
    in (dmul (Finite 100) (bftThreshold s) = Finite p \<longrightarrow>
          requiredVotes s = (if 0 \<le> p then \<lfloor>p\<rfloor> else \<lceil>p\<rceil>)) \<and>
       (msg_type msg \<noteq> VOTE \<longrightarrow> s' = s) \<and>
       (msg_type msg = VOTE \<and> txId \<notin> confirmedTransactions s \<longrightarrow>
          (txId \<in> confirmedTransactions s') =
          (requiredVotes s \<le> total \<and> requiredVotes s \<le> accept)) \<and>
       (msg_type msg = VOTE \<and> requiredVotes s \<le> total \<and> accept < requiredVotes s \<longrightarrow>
          pendingTransactions s' txId = None \<and> consensusVotes s' txId = None \<and>
          confirmedTransactions s' = confirmedTransactions s))"
proof -
  have trunc: "dmul (Finite 100) (bftThreshold s) = Finite p \<longrightarrow>
      requiredVotes s = (if 0 \<le> p then \<lfloor>p\<rfloor> else \<lceil>p\<rceil>)"
    using requiredVotes_truncates by blast
  have accept_le: "acceptCount s (transactionId msg) + (if vote msg then 1 else 0)
      \<le> totalCount s (transactionId msg) + 1"
    using acceptCount_le_totalCount [of s "transactionId msg"] by simp
  have ignore: "msg_type msg \<noteq> VOTE \<longrightarrow> processConsensusMessage now msg s = s"
    by (simp add: processConsensusMessage_cases)
  have fin: "msg_type msg = VOTE \<and> transactionId msg \<notin> confirmedTransactions s \<longrightarrow>
      (transactionId msg \<in> confirmedTransactions (processConsensusMessage now msg s)) =
      (requiredVotes s \<le> totalCount s (transactionId msg) + 1 \<and>
       requiredVotes s \<le> acceptCount s (transactionId msg) + (if vote msg then 1 else 0))"
    using accept_le
    by (simp only: processConsensusMessage_cases finalizeTransaction_confirms split: if_splits)
       (auto simp add: finalizeTransaction_confirms)
  have rej: "msg_type msg = VOTE \<and> requiredVotes s \<le> totalCount s (transactionId msg) + 1 \<and>
      acceptCount s (transactionId msg) + (if vote msg then 1 else 0) < requiredVotes s \<longrightarrow>
      pendingTransactions (processConsensusMessage now msg s) (transactionId msg) = None \<and>
      consensusVotes (processConsensusMessage now msg s) (transactionId msg) = None \<and>
      confirmedTransactions (processConsensusMessage now msg s) = confirmedTransactions s"
    by (simp add: processConsensusMessage_cases)
  from trunc ignore fin rej show ?thesis by (simp only: Let_def)
qed

lemma node_61_facts:
  "bftThreshold node_61_accepts = bft_0_625"
  "requiredVotes node_61_accepts = 62"
  "requiredVotes_spec node_61_accepts = 63"
  "totalCount node_61_accepts 7 = 61"
  "acceptCount node_61_accepts 7 = 61"
  "7 \<notin> confirmedTransactions node_61_accepts"
  by (simp_all add: node_61_accepts_def fresh_node_def initialize_def requiredVotes_def
      requiredVotes_spec_def product_0_625 totalCount_def acceptCount_def votes_of_def
      accept_vote_def comp_def)

text \<open>
  With the threshold \<open>0.625\<close> the product is \<open>62.5\<close>, exactly: rounded up it is \<open>63\<close>,
  the code uses \<open>62\<close>. The 62nd accepting vote confirms transaction \<open>7\<close>, with fewer
  votes than the rounded-up threshold asks for.
\<close>

theorem processConsensusMessage_ceiling_counterexample:
  "7 \<notin> confirmedTransactions node_61_accepts \<and>
   7 \<in> confirmedTransactions (processConsensusMessage 0 (accept_vote 7 63) node_61_accepts) \<and>
   totalCount node_61_accepts 7 + 1 = 62 \<and>
   acceptCount node_61_accepts 7 + 1 = 62 \<and>
   dmul (Finite 100) (bftThreshold node_61_accepts) = Finite (125 / 2) \<and>
   requiredVotes_spec node_61_accepts = 63 \<and>
   \<not> ((7 \<in> confirmedTransactions
            (processConsensusMessage 0 (accept_vote 7 63) node_61_accepts)) =
        (requiredVotes_spec node_61_accepts \<le> totalCount node_61_accepts 7 + 1 \<and>
         requiredVotes_spec node_61_accepts \<le> acceptCount node_61_accepts 7 + 1))"
  using product_0_625
  by (simp add: node_61_facts processConsensusMessage_cases finalizeTransaction_confirms
      accept_vote_def int_to_double_exact)

lemma node_66_rejects_facts:
  "requiredVotes node_66_rejects = 67"
  "bftThreshold node_66_rejects = bft_0_67"
  "totalCount node_66_rejects 1000001 = 66"
  "acceptCount node_66_rejects 1000001 = 0"
  "1000001 \<notin> confirmedTransactions node_66_rejects"
  "transactionStartTimes node_66_rejects 1000001 = Some 0"
  by (simp_all add: node_66_rejects_def fresh_node_def initialize_def requiredVotes_def
      product_0_67 totalCount_def acceptCount_def votes_of_def reject_vote_def comp_def
      sendTransaction_def sendTransaction_id_def updateThroughputMetrics_def Let_def)

lemma node_66_accepts_facts:
  "requiredVotes node_66_accepts = 67"
  "totalCount node_66_accepts 1000001 = 66"
  "acceptCount node_66_accepts 1000001 = 66"
  "1000001 \<notin> confirmedTransactions node_66_accepts"
  "confirmedTransactions node_66_accepts = {}"
  "transactionStartTimes node_66_accepts 1000001 = Some 0"
  "endToEndLatencySignal node_66_accepts = []"
  by (simp_all add: node_66_accepts_def fresh_node_def initialize_def requiredVotes_def
      product_0_67 totalCount_def acceptCount_def votes_of_def accept_vote_def comp_def
      sendTransaction_def sendTransaction_id_def updateThroughputMetrics_def Let_def)

theorem processConsensusMessage_quorum_witness:
  "dmul (Finite 100) (bftThreshold (fresh_node 1 bft_0_6)) = Finite 60 \<and>
   requiredVotes (fresh_node 1 bft_0_6) = 60 \<and>
   dmul (Finite 100) (bftThreshold (fresh_node 1 bft_0_57)) =
     Finite (8022036836253695 / 140737488355328) \<and>
   requiredVotes (fresh_node 1 bft_0_57) = 56 \<and>
   dmul (Finite 100) (bftThreshold node_61_accepts) = Finite (125 / 2) \<and>
   requiredVotes node_61_accepts = 62 \<and>
   dmul (Finite 100) (bftThreshold node_66_rejects) = Finite 67 \<and>
   requiredVotes node_66_rejects = 67 \<and>
   msg_type (accept_vote 7 63) = VOTE \<and>
   7 \<notin> confirmedTransactions node_61_accepts \<and>
   requiredVotes node_61_accepts \<le> totalCount node_61_accepts 7 + 1 \<and>
   requiredVotes node_61_accepts \<le> acceptCount node_61_accepts 7 + 1 \<and>
   7 \<in> confirmedTransactions (processConsensusMessage 0 (accept_vote 7 63) node_61_accepts) \<and>
   msg_type (reject_vote 1000001 68) = VOTE \<and>
   requiredVotes node_66_rejects \<le> totalCount node_66_rejects 1000001 + 1 \<and>
   acceptCount node_66_rejects 1000001 < requiredVotes node_66_rejects \<and>
   pendingTransactions
     (processConsensusMessage 0 (reject_vote 1000001 68) node_66_rejects) 1000001 = None \<and>
   consensusVotes
     (processConsensusMessage 0 (reject_vote 1000001 68) node_66_rejects) 1000001 = None \<and>
   msg_type ((accept_vote 7 63)\<lparr>msg_type := COMMIT\<rparr>) \<noteq> VOTE \<and>
   processConsensusMessage 0 ((accept_vote 7 63)\<lparr>msg_type := COMMIT\<rparr>) node_61_accepts =
     node_61_accepts"
proof -
  have prod61: "dmul (Finite 100) (bftThreshold node_61_accepts) = Finite (125 / 2)"
    using product_0_625 by (simp add: node_61_facts int_to_double_exact)
  have prod66: "dmul (Finite 100) (bftThreshold node_66_rejects) = Finite 67"
    using product_0_67 by (simp add: node_66_rejects_facts int_to_double_exact)
  have prod60: "dmul (Finite 100) (bftThreshold (fresh_node 1 bft_0_6)) = Finite 60"
    using product_0_6 by (simp add: fresh_node_def initialize_def int_to_double_exact)
  have prod57: "dmul (Finite 100) (bftThreshold (fresh_node 1 bft_0_57)) =
      Finite (8022036836253695 / 140737488355328)"
    using product_0_57 by (simp add: fresh_node_def initialize_def int_to_double_exact)
  have req60: "requiredVotes (fresh_node 1 bft_0_6) = 60"
    using processConsensusMessage_quorum [of "accept_vote 7 63" "fresh_node 1 bft_0_6" 0 60]
      prod60
    by (simp add: Let_def)
  have floor57: "\<lfloor>8022036836253695 / 140737488355328 :: real\<rfloor> = 56"
    by (simp add: floor_eq_iff)
  have req57: "requiredVotes (fresh_node 1 bft_0_57) = 56"
    using processConsensusMessage_quorum
      [of "accept_vote 7 63" "fresh_node 1 bft_0_57" 0 "8022036836253695 / 140737488355328"]
      prod57 floor57
    by (simp add: Let_def)
  have hyp_fin:
    "msg_type (accept_vote 7 63) = VOTE" "vote (accept_vote 7 63)"
    "transactionId (accept_vote 7 63) = 7"
    "7 \<notin> confirmedTransactions node_61_accepts"
    "requiredVotes node_61_accepts \<le> totalCount node_61_accepts 7 + 1"
    "requiredVotes node_61_accepts \<le> acceptCount node_61_accepts 7 + 1"
    by (simp_all add: node_61_facts accept_vote_def)
  have hyp_rej:
    "msg_type (reject_vote 1000001 68) = VOTE" "\<not> vote (reject_vote 1000001 68)"
    "transactionId (reject_vote 1000001 68) = 1000001"
    "requiredVotes node_66_rejects \<le> totalCount node_66_rejects 1000001 + 1"
    "acceptCount node_66_rejects 1000001 < requiredVotes node_66_rejects"
    by (simp_all add: node_66_rejects_facts reject_vote_def)
  have hyp_other:
    "msg_type ((accept_vote 7 63)\<lparr>msg_type := COMMIT\<rparr>) \<noteq> VOTE"
    by simp
  have fin:
    "requiredVotes node_61_accepts = \<lfloor>125 / 2 :: real\<rfloor> \<and>
     7 \<in> confirmedTransactions (processConsensusMessage 0 (accept_vote 7 63) node_61_accepts)"
    using processConsensusMessage_quorum [of "accept_vote 7 63" node_61_accepts 0 "125 / 2"]
      hyp_fin prod61
    by (simp add: Let_def)
  have rej:
    "requiredVotes node_66_rejects = \<lfloor>67 :: real\<rfloor> \<and>
     pendingTransactions
       (processConsensusMessage 0 (reject_vote 1000001 68) node_66_rejects) 1000001 = None \<and>
     consensusVotes
       (processConsensusMessage 0 (reject_vote 1000001 68) node_66_rejects) 1000001 = None"
    using processConsensusMessage_quorum [of "reject_vote 1000001 68" node_66_rejects 0 67]
      hyp_rej prod66
    by (simp add: Let_def)
  have other:
    "processConsensusMessage 0 ((accept_vote 7 63)\<lparr>msg_type := COMMIT\<rparr>) node_61_accepts =
       node_61_accepts"
    using processConsensusMessage_quorum
      [of "(accept_vote 7 63)\<lparr>msg_type := COMMIT\<rparr>" node_61_accepts 0 0] hyp_other
    by (simp add: Let_def)
  from prod60 req60 prod57 req57 prod61 prod66 hyp_fin hyp_rej hyp_other fin rej other
  show ?thesis by simp
qed

section \<open>Duplicate votes\<close>

lemma processConsensusMessage_appends:
  "msg_type msg = VOTE \<Longrightarrow> totalCount s (transactionId msg) + 1 < requiredVotes s \<Longrightarrow>
   votes_of (processConsensusMessage now msg s) (transactionId msg) =
     votes_of s (transactionId msg) @ [msg] \<and>
   requiredVotes (processConsensusMessage now msg s) = requiredVotes s"
  by (simp add: processConsensusMessage_cases votes_of_stored requiredVotes_stored)

lemma fresh_node_67_facts:
  "requiredVotes (fresh_node 1 bft_0_67) = 67"
  "votes_of (fresh_node 1 bft_0_67) 7 = []"
  by (simp_all add: fresh_node_def initialize_def requiredVotes_def product_0_67 votes_of_def)

lemma votes_of_finalized:
  "votes_of (finalizeTransaction now txId s) txId =
     (if txId \<in> confirmedTransactions s then votes_of s txId else [])"
  by (simp add: finalizeTransaction_def Let_def votes_of_def split: option.splits)

lemma consensusVotes_finalized:
  "txId \<notin> confirmedTransactions s \<Longrightarrow> consensusVotes (finalizeTransaction now txId s) txId = None"
  by (simp add: finalizeTransaction_erases)

text \<open>
  C3. Votes are not deduplicated by voter: a vote is appended to the list of its
  transaction whoever sent it. The list keeps the new vote, and the total grows by one,
  when the new total stays below \<open>requiredVotes\<close>, and also when the accepting votes reach
  \<open>requiredVotes\<close> for a transaction that is already confirmed. In every other case, that
  is when the new total reaches \<open>requiredVotes\<close> and the transaction is rejected or
  newly finalized, the list is erased and the total is \<open>0\<close>.
\<close>

theorem processConsensusMessage_counts_duplicates:
  "(let txId = transactionId msg;
        total = totalCount s txId + 1;
        accept = acceptCount s txId + (if vote msg then 1 else 0);
        s' = processConsensusMessage now msg s
    in msg_type msg = VOTE \<longrightarrow>
       (total < requiredVotes s \<or>
        (requiredVotes s \<le> accept \<and> txId \<in> confirmedTransactions s) \<longrightarrow>
          votes_of s' txId = votes_of s txId @ [msg] \<and>
          totalCount s' txId = totalCount s txId + 1) \<and>
       (requiredVotes s \<le> total \<and>
        (accept < requiredVotes s \<or> txId \<notin> confirmedTransactions s) \<longrightarrow>
          consensusVotes s' txId = None \<and> totalCount s' txId = 0))"
proof -
  have accept_le: "acceptCount s (transactionId msg) + (if vote msg then 1 else 0)
      \<le> totalCount s (transactionId msg) + 1"
    using acceptCount_le_totalCount [of s "transactionId msg"] by simp
  have stored: "transactionId msg \<in> confirmedTransactions
      (s\<lparr>consensusVotes :=
          (consensusVotes s)(transactionId msg \<mapsto> votes_of s (transactionId msg) @ [msg])\<rparr>) =
      (transactionId msg \<in> confirmedTransactions s)"
    by simp
  have kept: "msg_type msg = VOTE \<Longrightarrow>
      totalCount s (transactionId msg) + 1 < requiredVotes s \<or>
      (requiredVotes s \<le> acceptCount s (transactionId msg) + (if vote msg then 1 else 0) \<and>
       transactionId msg \<in> confirmedTransactions s) \<Longrightarrow>
      votes_of (processConsensusMessage now msg s) (transactionId msg) =
        votes_of s (transactionId msg) @ [msg]"
    using accept_le
    by (auto simp add: processConsensusMessage_cases votes_of_stored votes_of_finalized)
  have erased: "msg_type msg = VOTE \<Longrightarrow>
      requiredVotes s \<le> totalCount s (transactionId msg) + 1 \<Longrightarrow>
      acceptCount s (transactionId msg) + (if vote msg then 1 else 0) < requiredVotes s \<or>
      transactionId msg \<notin> confirmedTransactions s \<Longrightarrow>
      consensusVotes (processConsensusMessage now msg s) (transactionId msg) = None"
    by (auto simp add: processConsensusMessage_cases consensusVotes_finalized)
  show ?thesis
    unfolding Let_def using kept erased
    by (auto simp add: totalCount_def votes_of_def)
qed

lemma node_one_vote_facts:
  "votes_of node_one_vote 7 = [accept_vote 7 5]"
  "requiredVotes node_one_vote = 67"
  "totalCount node_one_vote 7 = 1"
proof -
  have m: "msg_type (accept_vote 7 5) = VOTE" "transactionId (accept_vote 7 5) = 7"
    by (simp_all add: accept_vote_def)
  have "votes_of node_one_vote 7 = [accept_vote 7 5] \<and> requiredVotes node_one_vote = 67"
    unfolding node_one_vote_def
    using processConsensusMessage_appends [of "accept_vote 7 5" "fresh_node 1 bft_0_67" 0] m
    by (simp add: fresh_node_67_facts totalCount_def)
  then show "votes_of node_one_vote 7 = [accept_vote 7 5]" "requiredVotes node_one_vote = 67"
    "totalCount node_one_vote 7 = 1"
    by (simp_all add: totalCount_def)
qed

text \<open>
  Sender \<open>5\<close> votes twice on transaction \<open>7\<close>: the total goes from \<open>1\<close> to \<open>2\<close>.
\<close>

theorem duplicate_vote_counterexample:
  "list_ex (\<lambda>v. senderId v = senderId (accept_vote 7 5)) (votes_of node_one_vote 7) \<and>
   totalCount node_one_vote 7 = 1 \<and>
   totalCount (processConsensusMessage 1 (accept_vote 7 5) node_one_vote) 7 = 2 \<and>
   totalCount (processConsensusMessage 1 (accept_vote 7 5) node_one_vote) 7 \<noteq>
     totalCount node_one_vote 7"
proof -
  have m: "msg_type (accept_vote 7 5) = VOTE" "transactionId (accept_vote 7 5) = 7"
    by (simp_all add: accept_vote_def)
  have second:
    "votes_of (processConsensusMessage 1 (accept_vote 7 5) node_one_vote) 7 =
       [accept_vote 7 5, accept_vote 7 5]"
    using processConsensusMessage_appends [of "accept_vote 7 5" node_one_vote 1] m
    by (simp add: node_one_vote_facts)
  from second show ?thesis by (simp add: totalCount_def node_one_vote_facts)
qed

lemma node_confirmed_66_facts:
  "requiredVotes node_confirmed_66 = 67"
  "totalCount node_confirmed_66 1000001 = 66"
  "acceptCount node_confirmed_66 1000001 = 66"
  "1000001 \<in> confirmedTransactions node_confirmed_66"
  by (simp_all add: node_confirmed_66_def fresh_node_def initialize_def requiredVotes_def
      product_0_67 totalCount_def acceptCount_def votes_of_def accept_vote_def comp_def)

theorem processConsensusMessage_counts_duplicates_witness:
  "msg_type (accept_vote 7 5) = VOTE \<and>
   list_ex (\<lambda>v. senderId v = senderId (accept_vote 7 5)) (votes_of node_one_vote 7) \<and>
   totalCount node_one_vote 7 + 1 < requiredVotes node_one_vote \<and>
   votes_of (processConsensusMessage 1 (accept_vote 7 5) node_one_vote) 7 =
     votes_of node_one_vote 7 @ [accept_vote 7 5] \<and>
   totalCount (processConsensusMessage 1 (accept_vote 7 5) node_one_vote) 7 =
     totalCount node_one_vote 7 + 1 \<and>
   requiredVotes node_66_rejects \<le> totalCount node_66_rejects 1000001 + 1 \<and>
   acceptCount node_66_rejects 1000001 < requiredVotes node_66_rejects \<and>
   consensusVotes
     (processConsensusMessage 0 (reject_vote 1000001 67) node_66_rejects) 1000001 = None \<and>
   totalCount (processConsensusMessage 0 (reject_vote 1000001 67) node_66_rejects) 1000001 = 0 \<and>
   1000001 \<in> confirmedTransactions node_confirmed_66 \<and>
   requiredVotes node_confirmed_66 \<le> acceptCount node_confirmed_66 1000001 + 1 \<and>
   totalCount (processConsensusMessage 0 (accept_vote 1000001 67) node_confirmed_66) 1000001 =
     totalCount node_confirmed_66 1000001 + 1"
proof -
  have h: "msg_type (accept_vote 7 5) = VOTE" "transactionId (accept_vote 7 5) = 7"
    by (simp_all add: accept_vote_def)
  have dup: "list_ex (\<lambda>v. senderId v = senderId (accept_vote 7 5)) (votes_of node_one_vote 7)"
    by (simp add: node_one_vote_facts)
  have below: "totalCount node_one_vote 7 + 1 < requiredVotes node_one_vote"
    by (simp add: node_one_vote_facts)
  from processConsensusMessage_counts_duplicates [of "accept_vote 7 5" node_one_vote 1] h below
  have appended:
    "votes_of (processConsensusMessage 1 (accept_vote 7 5) node_one_vote) 7 =
       votes_of node_one_vote 7 @ [accept_vote 7 5] \<and>
     totalCount (processConsensusMessage 1 (accept_vote 7 5) node_one_vote) 7 =
       totalCount node_one_vote 7 + 1"
    by (simp add: Let_def)
  have hr: "msg_type (reject_vote 1000001 67) = VOTE"
    "transactionId (reject_vote 1000001 67) = 1000001" "\<not> vote (reject_vote 1000001 67)"
    "requiredVotes node_66_rejects \<le> totalCount node_66_rejects 1000001 + 1"
    "acceptCount node_66_rejects 1000001 < requiredVotes node_66_rejects"
    by (simp_all add: reject_vote_def node_66_rejects_facts)
  from processConsensusMessage_counts_duplicates
         [of "reject_vote 1000001 67" node_66_rejects 0] hr
  have erased:
    "consensusVotes
       (processConsensusMessage 0 (reject_vote 1000001 67) node_66_rejects) 1000001 = None \<and>
     totalCount (processConsensusMessage 0 (reject_vote 1000001 67) node_66_rejects) 1000001 = 0"
    by (simp add: Let_def)
  have hc: "msg_type (accept_vote 1000001 67) = VOTE"
    "transactionId (accept_vote 1000001 67) = 1000001" "vote (accept_vote 1000001 67)"
    "1000001 \<in> confirmedTransactions node_confirmed_66"
    "requiredVotes node_confirmed_66 \<le> acceptCount node_confirmed_66 1000001 + 1"
    by (simp_all add: accept_vote_def node_confirmed_66_facts)
  from processConsensusMessage_counts_duplicates
         [of "accept_vote 1000001 67" node_confirmed_66 0] hc
  have kept:
    "totalCount (processConsensusMessage 0 (accept_vote 1000001 67) node_confirmed_66) 1000001 =
       totalCount node_confirmed_66 1000001 + 1"
    by (simp add: Let_def)
  from h dup below appended hr erased hc kept show ?thesis by simp
qed

section \<open>Finalization\<close>

lemma finalizeTransaction_latency:
  "endToEndLatencySignal (finalizeTransaction now txId s) =
     (if txId \<in> confirmedTransactions s then endToEndLatencySignal s
      else case transactionStartTimes s txId of
             None \<Rightarrow> endToEndLatencySignal s
           | Some started \<Rightarrow> endToEndLatencySignal s @ [(txId, now - started)])"
  by (simp add: finalizeTransaction_def Let_def split: option.splits)

lemma latency_once_finalizeTransaction:
  "latency_once s \<Longrightarrow> latency_once (finalizeTransaction now txId s)"
  unfolding latency_once_def
  by (auto simp add: finalizeTransaction_latency finalizeTransaction_confirms
      split: option.splits)

lemma latency_once_cong:
  "endToEndLatencySignal t = endToEndLatencySignal s \<Longrightarrow>
   confirmedTransactions t = confirmedTransactions s \<Longrightarrow>
   latency_once s \<Longrightarrow> latency_once t"
  by (simp add: latency_once_def)

lemma latency_once_processConsensusMessage:
  "latency_once s \<Longrightarrow> latency_once (processConsensusMessage now msg s)"
proof -
  assume inv: "latency_once s"
  have stored: "latency_once (s\<lparr>consensusVotes :=
      (consensusVotes s)(transactionId msg \<mapsto> votes_of s (transactionId msg) @ [msg])\<rparr>)"
    using inv by (simp add: latency_once_def)
  have erased: "latency_once
      (s\<lparr>pendingTransactions := (pendingTransactions s)(transactionId msg := None),
         consensusVotes := (consensusVotes s)(transactionId msg := None)\<rparr>)"
    using inv by (simp add: latency_once_def)
  show ?thesis
    using inv stored erased latency_once_finalizeTransaction [OF stored]
    by (simp add: processConsensusMessage_cases)
qed

lemma updateFalsePositiveRate_frame:
  "endToEndLatencySignal (updateFalsePositiveRate v r s) = endToEndLatencySignal s \<and>
   confirmedTransactions (updateFalsePositiveRate v r s) = confirmedTransactions s"
  by (simp add: updateFalsePositiveRate_def Let_def)

lemma processCocoChainConsensus_frame:
  "endToEndLatencySignal (snd (processCocoChainConsensus fmt hasher absf d1 d2 now tx s)) =
     endToEndLatencySignal s \<and>
   confirmedTransactions (snd (processCocoChainConsensus fmt hasher absf d1 d2 now tx s)) =
     confirmedTransactions s"
  by (simp add: processCocoChainConsensus_def updateFalsePositiveRate_frame)

lemma processReceivedTransaction_frame:
  "endToEndLatencySignal (processReceivedTransaction fmt hasher absf d1 d2 now tx s) =
     endToEndLatencySignal s \<and>
   confirmedTransactions (processReceivedTransaction fmt hasher absf d1 d2 now tx s) =
     confirmedTransactions s"
  using processCocoChainConsensus_frame [of fmt hasher absf d1 d2 now tx s]
  by (cases "processCocoChainConsensus fmt hasher absf d1 d2 now tx s")
     (simp add: processReceivedTransaction_def)

lemma sendTransaction_frame:
  "endToEndLatencySignal (sendTransaction now s) = endToEndLatencySignal s \<and>
   confirmedTransactions (sendTransaction now s) = confirmedTransactions s"
  by (simp add: sendTransaction_def updateThroughputMetrics_def Let_def)

lemma latency_once_counted:
  "latency_once s \<Longrightarrow>
   latency_once (s\<lparr>totalMessagesReceived := n, consensusOverheadSignal := xs\<rparr>)"
  by (simp add: latency_once_def)

lemma latency_once_socketDataArrived:
  "latency_once s \<Longrightarrow>
   latency_once (socketDataArrived fmt hasher absf txDraw refDraw1 refDraw2 now p s)"
proof (cases p)
  case (TRANSACTION i orig ts)
  assume "latency_once s"
  from latency_once_counted [OF this] show ?thesis
    unfolding socketDataArrived_def Let_def TRANSACTION packet.case
    by (rule latency_once_cong [rotated 2])
       (simp_all add: processReceivedTransaction_frame)
next
  case (CONSENSUS msg)
  assume "latency_once s"
  from latency_once_counted [OF this] show ?thesis
    unfolding socketDataArrived_def Let_def CONSENSUS packet.case
    by (rule latency_once_processConsensusMessage)
next
  case OTHER
  assume "latency_once s"
  from latency_once_counted [OF this] show ?thesis
    unfolding socketDataArrived_def Let_def OTHER packet.case .
qed

lemma latency_once_handle_event:
  "latency_once s \<Longrightarrow> latency_once (handle_event fmt hasher absf s e)"
proof (cases e)
  case (SendTimer now)
  assume "latency_once s"
  then show ?thesis
    using SendTimer sendTransaction_frame [of now s] by (simp add: latency_once_def)
next
  case (PacketArrived now p txDraw refDraw1 refDraw2)
  assume "latency_once s"
  then show ?thesis
    using PacketArrived by (simp add: latency_once_socketDataArrived)
qed

lemma latency_once_run:
  "latency_once s \<Longrightarrow> latency_once (run fmt hasher absf s evs)"
  unfolding run_def
  by (induction evs arbitrary: s) (simp_all add: latency_once_handle_event)

lemma latency_once_initialize:
  "latency_once (initialize nid bft semver maxAge cosThr pbftCmp prob draw)"
  by (simp add: latency_once_def initialize_def)

text \<open>
  C4. \<^verbatim>\<open>finalizeTransaction\<close> on an id that is already confirmed returns the state
  unchanged: confirmed set, pending map, vote map and latency samples. After a first call
  the id is confirmed, so every later call is such a no-op. In every run of a node from
  its initial state the latency samples carry pairwise distinct transaction ids.
\<close>

theorem finalizeTransaction_idempotent:
  "(txId \<in> confirmedTransactions s \<longrightarrow> finalizeTransaction now txId s = s) \<and>
   txId \<in> confirmedTransactions (finalizeTransaction now txId s) \<and>
   finalizeTransaction later txId (finalizeTransaction now txId s) =
     finalizeTransaction now txId s \<and>
   distinct (map fst (endToEndLatencySignal
     (run fmt hasher absf (initialize nid bft semver maxAge cosThr pbftCmp prob draw) evs)))"
proof -
  have confirmed: "txId \<in> confirmedTransactions (finalizeTransaction now txId s)"
    by (simp add: finalizeTransaction_confirms)
  have once: "latency_once
      (run fmt hasher absf (initialize nid bft semver maxAge cosThr pbftCmp prob draw) evs)"
    by (rule latency_once_run [OF latency_once_initialize])
  show ?thesis
    using confirmed once finalizeTransaction_confirmed [OF confirmed, of later]
    by (simp add: finalizeTransaction_confirmed latency_once_def)
qed

lemma node_66_accepts_finalized:
  "processConsensusMessage 10000 (accept_vote 1000001 68) node_66_accepts =
   finalizeTransaction 10000 1000001
     (node_66_accepts\<lparr>consensusVotes :=
        (consensusVotes node_66_accepts)
          (1000001 \<mapsto> votes_of node_66_accepts 1000001 @ [accept_vote 1000001 68])\<rparr>)"
  by (simp add: processConsensusMessage_cases node_66_accepts_facts accept_vote_def)

theorem finalizeTransaction_idempotent_witness:
  "1000001 \<in> confirmedTransactions
     (processConsensusMessage 10000 (accept_vote 1000001 68) node_66_accepts) \<and>
   endToEndLatencySignal
     (processConsensusMessage 10000 (accept_vote 1000001 68) node_66_accepts) =
     [(1000001, 10000)] \<and>
   finalizeTransaction 20000 1000001
     (processConsensusMessage 10000 (accept_vote 1000001 68) node_66_accepts) =
     processConsensusMessage 10000 (accept_vote 1000001 68) node_66_accepts"
proof -
  have c: "1000001 \<in> confirmedTransactions
     (processConsensusMessage 10000 (accept_vote 1000001 68) node_66_accepts)"
    by (simp add: node_66_accepts_finalized finalizeTransaction_confirms)
  have l: "endToEndLatencySignal
     (processConsensusMessage 10000 (accept_vote 1000001 68) node_66_accepts) =
     [(1000001, 10000)]"
    by (simp add: node_66_accepts_finalized finalizeTransaction_latency node_66_accepts_facts)
  from c finalizeTransaction_idempotent
    [of 1000001 "processConsensusMessage 10000 (accept_vote 1000001 68) node_66_accepts" 20000]
  have "finalizeTransaction 20000 1000001
     (processConsensusMessage 10000 (accept_vote 1000001 68) node_66_accepts) =
     processConsensusMessage 10000 (accept_vote 1000001 68) node_66_accepts"
    by blast
  with c l show ?thesis by blast
qed

section \<open>Clean-up on the terminal paths\<close>

text \<open>
  C5. The originator of transaction \<open>1000001\<close> receives the 67th vote on it, all 67
  rejecting. The transaction is rejected: it leaves the pending map and the vote map and is
  not confirmed, but its entry in \<open>transactionStartTimes\<close> stays. On the finalize path the
  same entry is erased.
\<close>

theorem rejection_keeps_start_time:
  "transactionStartTimes node_66_rejects 1000001 = Some 0 \<and>
   requiredVotes node_66_rejects = 67 \<and>
   totalCount node_66_rejects 1000001 + 1 = 67 \<and>
   acceptCount node_66_rejects 1000001 = 0 \<and>
   pendingTransactions
     (processConsensusMessage 10000 (reject_vote 1000001 68) node_66_rejects) 1000001 = None \<and>
   consensusVotes
     (processConsensusMessage 10000 (reject_vote 1000001 68) node_66_rejects) 1000001 = None \<and>
   1000001 \<notin> confirmedTransactions
     (processConsensusMessage 10000 (reject_vote 1000001 68) node_66_rejects) \<and>
   transactionStartTimes
     (processConsensusMessage 10000 (reject_vote 1000001 68) node_66_rejects) 1000001 = Some 0 \<and>
   transactionStartTimes
     (processConsensusMessage 10000 (accept_vote 1000001 68) node_66_accepts) 1000001 = None"
proof -
  have rejected:
    "processConsensusMessage 10000 (reject_vote 1000001 68) node_66_rejects =
     node_66_rejects
       \<lparr>pendingTransactions := (pendingTransactions node_66_rejects)(1000001 := None),
        consensusVotes := (consensusVotes node_66_rejects)(1000001 := None)\<rparr>"
    by (simp add: processConsensusMessage_cases node_66_rejects_facts reject_vote_def)
  have sibling:
    "transactionStartTimes
       (processConsensusMessage 10000 (accept_vote 1000001 68) node_66_accepts) 1000001 = None"
    unfolding node_66_accepts_finalized
    by (rule finalizeTransaction_erases [THEN conjunct2, THEN conjunct2])
       (simp add: node_66_accepts_facts)
  show ?thesis
    unfolding rejected using sibling by (simp add: node_66_rejects_facts)
qed


section \<open>Disabled verification\<close>

text \<open>
  C2. With semantic verification switched off, \<^verbatim>\<open>verifySemanticIntegrity\<close> returns
  \<^verbatim>\<open>true\<close> at once, for every transaction: nothing is checked and everything is accepted.
\<close>

theorem verifySemanticIntegrity_disabled:
  "\<not> semanticVerification s \<Longrightarrow>
   verifySemanticIntegrity fmt hasher absf refDraw now s tx = True"
  by (simp add: verifySemanticIntegrity_def)

lemma hex_nat_digits: "set (hex_nat n) \<subseteq> set ''0123456789abcdef''"
proof (induction n rule: hex_nat.induct)
  case (1 n)
  have digit: "''0123456789abcdef'' ! k \<in> set ''0123456789abcdef''" if "k < 16" for k
    using that nth_mem [of k "''0123456789abcdef''"] by simp
  show ?case
  proof (cases "n < 16")
    case True
    then show ?thesis
      using digit [of n] by (subst hex_nat.simps) simp
  next
    case False
    have "n mod 16 < 16" by simp
    with False "1.IH" digit [of "n mod 16"] show ?thesis
      by (subst hex_nat.simps) simp
  qed
qed

lemma tampered_digest:
  "computeSemanticDigest fmt hasher (conceptVector tampered_tx) \<noteq> semanticDigest tampered_tx"
proof
  assume "computeSemanticDigest fmt hasher (conceptVector tampered_tx) = semanticDigest tampered_tx"
  then have "CHR ''n'' \<in> set
      (hex_nat (unat (hasher (concat (map (\<lambda>val. fmt val @ '';'') (data (conceptVector tampered_tx)))))))"
    by (simp add: computeSemanticDigest_def tampered_tx_def)
  with hex_nat_digits show False by fastforce
qed

theorem verifySemanticIntegrity_disabled_witness:
  "\<not> semanticVerification node_unverified \<and>
   verifySemanticIntegrity fixed6 fnv1a_64 dabs zero_draw 0 node_unverified tampered_tx = True \<and>
   verifySemanticIntegrity fixed6 fnv1a_64 dabs zero_draw 0
     (node_unverified\<lparr>semanticVerification := True\<rparr>) tampered_tx = False"
proof -
  have off: "\<not> semanticVerification node_unverified"
    by (simp add: node_unverified_def)
  have on: "verifySemanticIntegrity fixed6 fnv1a_64 dabs zero_draw 0
     (node_unverified\<lparr>semanticVerification := True\<rparr>) tampered_tx = False"
    using tampered_digest by (simp add: verifySemanticIntegrity_def Let_def)
  from verifySemanticIntegrity_disabled
         [OF off, of fixed6 fnv1a_64 dabs zero_draw 0 tampered_tx] off on
  show ?thesis by blast
qed

text \<open>
  A transaction whose digest does not match its vector passes the disabled verifier: the
  result is not \<^verbatim>\<open>false\<close>.
\<close>

theorem verifySemanticIntegrity_disabled_counterexample:
  "\<not> semanticVerification node_unverified \<and>
   \<not> (verifySemanticIntegrity fixed6 fnv1a_64 dabs zero_draw 0 node_unverified tampered_tx = False)"
  by (simp add: verifySemanticIntegrity_def node_unverified_def)

section \<open>False-positive rate\<close>


























section \<open>Transaction identifiers\<close>

lemma sendTransaction_id_same_node:
  "getId a = getId b \<Longrightarrow>
   (sendTransaction_id a = sendTransaction_id b) = (transactionCounter a = transactionCounter b)"
  by (simp add: sendTransaction_id_def)

text \<open>
  C8. Node \<open>1\<close> sending its 1000001st transaction and node \<open>2\<close> sending its first one
  allocate the same id \<open>2000001\<close>; vehicle \<open>0\<close> sending its 1000001st transaction and vehicle
  \<open>1\<close> sending its first one allocate the same id \<open>1000001\<close>.
\<close>

theorem transaction_ids_collide:
  "getId node_after_million = 1 \<and> transactionCounter node_after_million = 1000000 \<and>
   getId (fresh_node 2 bft_0_67) = 2 \<and> transactionCounter (fresh_node 2 bft_0_67) = 0 \<and>
   sendTransaction_id node_after_million = 2000001 \<and>
   sendTransaction_id (fresh_node 2 bft_0_67) = 2000001 \<and>
   transactionStartTimes (sendTransaction 0 node_after_million) 2000001 = Some 0 \<and>
   transactionStartTimes (sendTransaction 0 (fresh_node 2 bft_0_67)) 2000001 = Some 0 \<and>
   vehicleId vehicle_after_million = 0 \<and> v_transactionCounter vehicle_after_million = 1000000 \<and>
   vehicleId (vehicle_fresh 1) = 1 \<and> v_transactionCounter (vehicle_fresh 1) = 0 \<and>
   vehicle_txId vehicle_after_million = 1000001 \<and>
   vehicle_txId (vehicle_fresh 1) = 1000001 \<and>
   v_pendingTransactions (vehicle_sendTransaction 0 0 vehicle_after_million) 1000001 = Some 0 \<and>
   v_pendingTransactions (vehicle_sendTransaction 0 0 (vehicle_fresh 1)) 1000001 = Some 0"
  by (simp add: node_after_million_def fresh_node_def initialize_def sendTransaction_id_def
      sendTransaction_def updateThroughputMetrics_def Let_def
      vehicle_after_million_def vehicle_fresh_def vehicle_txId_def vehicle_sendTransaction_def
      checkRSURange_def initiateHandover_def)

end
